theory Spec2Isabelle
  imports Complex_Main "HOL-Library.Word" "HOL-Library.Signed_Division"
begin

section \<open>Data model (models/proxy.go)\<close>

text \<open>
  Conventions of the embedding.
  \<^item> A \<open>time.Time\<close> is an integer number of nanoseconds since Go's zero time, so the
    zero value of \<open>time.Time\<close> is \<open>0\<close>; a \<open>time.Duration\<close> is an integer number of
    nanoseconds. Every function that reads the clock takes the reading as the argument
    \<open>now\<close>.
  \<^item> Go's \<open>int\<close> and \<open>int64\<close> counters are integers; the counters are only moved by
    \<open>++\<close>, and the model does not wrap them at \<open>2^63\<close>. The speed blend of
    \<open>UpdateStats\<close>, which multiplies stored values, is computed in 64-bit two's
    complement with Go's truncating division.
  \<^item> \<open>float64\<close> values (scores, weights) are real numbers; rounding is not modelled.
  \<^item> Of the embedded \<open>gorm.Model\<close> the primary key \<open>ID\<close> is kept. The timestamps
    \<open>CreatedAt\<close> and \<open>UpdatedAt\<close> that the library maintains are left out, and a
    soft-deleted row, which no query of the program sees, is a row that is absent.
  \<^item> Logging is left out.
\<close>

type_synonym time = int

datatype error =
    ErrURLParse
  | ErrMissingWhereClause
  | ErrDuplicatedKey
  | ErrRecordNotFound
  | ErrUnknownColumn string
  | ErrNoProxyAvailable
  | ErrNoQualifiedProxy
  | PanicDivideByZero

record Proxy =
  ID :: nat
  IP :: string
  Port :: int
  Type :: string
  Protocol :: string
  Region :: string
  Source :: string
  Anonymous :: bool
  Speed :: int
  Success :: int
  Failure :: int
  Score :: real
  LastCheck :: time
  Available :: bool
  UseCount :: int
  ConcurrentUse :: int
  MaxConcurrent :: int
  LastUsedAt :: time
  Version :: int
  FailCount :: int

definition ProxyTypeTemp :: string where "ProxyTypeTemp = ''temp''"
definition ProxyTypeLong :: string where "ProxyTypeLong = ''long''"
definition ProxyTypeAnon :: string where "ProxyTypeAnon = ''anon''"
definition ProxyTypeHighAnon :: string where "ProxyTypeHighAnon = ''high_anon''"

text \<open>\<open>GetSuccessRate\<close>: the share of successes in percent, \<open>0\<close> when nothing was counted.\<close>

definition GetSuccessRate :: "Proxy \<Rightarrow> real" where
  "GetSuccessRate p =
     (let total = Success p + Failure p
      in if total = 0 then 0 else real_of_int (Success p) / real_of_int total * 100)"

text \<open>\<open>UpdateScore\<close>: 70 percent success rate, 30 percent speed score.\<close>

definition UpdateScore :: "Proxy \<Rightarrow> Proxy" where
  "UpdateScore p =
     (let successRate = GetSuccessRate p;
          speedScore = (if Speed p > 0 then max 0 (100 - real_of_int (Speed p) / 10) else 100)
      in p\<lparr>Score := successRate * 0.7 + speedScore * 0.3\<rparr>)"

text \<open>
  The speed blend of \<open>UpdateStats\<close>,
  \<^verbatim>\<open>(p.Speed*int64(p.UseCount-1) + speed) / int64(p.UseCount)\<close>, on 64-bit words.
\<close>

definition speedBlend :: "int \<Rightarrow> int \<Rightarrow> int \<Rightarrow> int" where
  "speedBlend sp uc s =
     (let numerator = (word_of_int sp :: 64 word) * (word_of_int uc - 1) + word_of_int s;
          denominator = (word_of_int uc :: 64 word)
      in sint (word_of_int (sint numerator sdiv sint denominator) :: 64 word))"

text \<open>
  \<open>UpdateStats\<close>. Go panics on an integer division by zero; the panic is the result
  \<open>Inl PanicDivideByZero\<close>.
\<close>

definition UpdateStats :: "time \<Rightarrow> bool \<Rightarrow> int \<Rightarrow> Proxy \<Rightarrow> error + Proxy" where
  "UpdateStats now success speed p =
     (if success then
        (let p1 = p\<lparr>Success := Success p + 1\<rparr>
         in if Speed p1 = 0 then
              Inr (UpdateScore (p1\<lparr>Speed := speed, LastCheck := now\<rparr>))
            else if (word_of_int (UseCount p1) :: 64 word) = 0 then Inl PanicDivideByZero
            else Inr (UpdateScore
                   (p1\<lparr>Speed := speedBlend (Speed p1) (UseCount p1) speed, LastCheck := now\<rparr>)))
      else Inr (UpdateScore (p\<lparr>Failure := Failure p + 1, LastCheck := now\<rparr>)))"

text \<open>The \<open>BeforeCreate\<close> hook.\<close>

definition BeforeCreate :: "time \<Rightarrow> Proxy \<Rightarrow> Proxy" where
  "BeforeCreate now p =
     (let p1 = (if MaxConcurrent p = 0 then p\<lparr>MaxConcurrent := 10\<rparr> else p)
      in p1\<lparr>LastCheck := now\<rparr>)"

section \<open>The store (table \<open>proxies\<close>)\<close>

text \<open>
  The table is the one that \<open>AutoMigrate\<close> creates from the \<open>Proxy\<close> struct: a row
  holds the columns of the struct. The store is the list of rows in insertion order and
  the next value of the auto-increment key.
\<close>

record row =
  cols :: Proxy

record db =
  rows :: "row list"
  next_id :: nat

definition db_Find :: "db \<Rightarrow> Proxy list" where
  "db_Find d = map cols (rows d)"

definition db_First :: "db \<Rightarrow> nat \<Rightarrow> error + Proxy" where
  "db_First d i =
     (case find (\<lambda>r. ID (cols r) = i) (rows d) of
        None \<Rightarrow> Inl ErrRecordNotFound
      | Some r \<Rightarrow> Inr (cols r))"

definition IsProxyExists :: "db \<Rightarrow> string \<Rightarrow> int \<Rightarrow> bool" where
  "IsProxyExists d ip port =
     (length (filter (\<lambda>r. IP (cols r) = ip \<and> Port (cols r) = port) (rows d)) > 0)"

text \<open>
  The column defaults of the struct tags that differ from the zero value: the library
  stores the default in place of a zero value on insert, and writes it back to the struct.
\<close>

definition applyDefaults :: "Proxy \<Rightarrow> Proxy" where
  "applyDefaults p =
     (let p1 = (if \<not> Available p then p\<lparr>Available := True\<rparr> else p)
      in if MaxConcurrent p1 = 0 then p1\<lparr>MaxConcurrent := 10\<rparr> else p1)"

text \<open>
  \<open>db.Create\<close>: runs the hook, inserts the row, and writes the key back to the struct.
  A zero key takes the next auto-increment value; a key that is given must be new.
\<close>

definition db_Create :: "time \<Rightarrow> Proxy \<Rightarrow> db \<Rightarrow> error + (Proxy \<times> db)" where
  "db_Create now p d =
     (let p1 = applyDefaults (BeforeCreate now p)
      in if ID p1 = 0 then
           (let p2 = p1\<lparr>ID := next_id d\<rparr>
            in Inr (p2, d\<lparr>rows := rows d @ [\<lparr>cols = p2\<rparr>],
                          next_id := next_id d + 1\<rparr>))
         else if ID p1 \<in> set (map (\<lambda>r. ID (cols r)) (rows d)) then Inl ErrDuplicatedKey
         else Inr (p1, d\<lparr>rows := rows d @ [\<lparr>cols = p1\<rparr>],
                         next_id := max (next_id d) (ID p1 + 1)\<rparr>))"

text \<open>
  \<open>db.Save\<close>: with a zero key it creates; otherwise it writes every field of the struct
  to the row of that key, and inserts the row when there is none.
\<close>

definition db_Save :: "time \<Rightarrow> Proxy \<Rightarrow> db \<Rightarrow> error + (Proxy \<times> db)" where
  "db_Save now p d =
     (if ID p = 0 then db_Create now p d
      else if ID p \<in> set (map (\<lambda>r. ID (cols r)) (rows d)) then
        Inr (p, d\<lparr>rows := map (\<lambda>r. if ID (cols r) = ID p then r\<lparr>cols := p\<rparr> else r) (rows d)\<rparr>)
      else
        (let p1 = applyDefaults p
         in Inr (p1, d\<lparr>rows := rows d @ [\<lparr>cols = p1\<rparr>],
                         next_id := max (next_id d) (ID p1 + 1)\<rparr>)))"

text \<open>
  \<open>db.Delete(proxy)\<close>: deletes the row of the struct's key; with a zero key the
  statement has no condition and the library refuses it.
\<close>

definition db_Delete :: "Proxy \<Rightarrow> db \<Rightarrow> error + db" where
  "db_Delete p d =
     (if ID p = 0 then Inl ErrMissingWhereClause
      else Inr (d\<lparr>rows := filter (\<lambda>r. ID (cols r) \<noteq> ID p) (rows d)\<rparr>))"

text \<open>
  The columns of the table: one for each field of the struct and of the embedded
  \<open>gorm.Model\<close>, under the library's snake-case names. A statement that names any other
  column is refused by the database with an unknown-column error, whatever the rows are,
  and changes nothing.
\<close>

definition proxyColumns :: "string list" where
  "proxyColumns =
     [''id'', ''created_at'', ''updated_at'', ''deleted_at'', ''ip'', ''port'', ''type'',
      ''protocol'', ''region'', ''source'', ''anonymous'', ''speed'', ''success'', ''failure'',
      ''score'', ''last_check'', ''available'', ''use_count'', ''concurrent_use'',
      ''max_concurrent'', ''last_used_at'', ''version'', ''fail_count'']"

definition checkColumns :: "string list \<Rightarrow> error option" where
  "checkColumns names =
     (case find (\<lambda>c. c \<notin> set proxyColumns) names of
        None \<Rightarrow> None
      | Some c \<Rightarrow> Some (ErrUnknownColumn c))"

text \<open>
  The number in a numeric column of a row, for the conditions and orderings that name the
  column. For a name that is no numeric column of the table the value is never read: the
  statement has been refused before.
\<close>

definition numCol :: "string \<Rightarrow> Proxy \<Rightarrow> real" where
  "numCol c r =
     (if c = ''id'' then real (ID r)
      else if c = ''port'' then real_of_int (Port r)
      else if c = ''speed'' then real_of_int (Speed r)
      else if c = ''success'' then real_of_int (Success r)
      else if c = ''failure'' then real_of_int (Failure r)
      else if c = ''score'' then Score r
      else if c = ''use_count'' then real_of_int (UseCount r)
      else if c = ''concurrent_use'' then real_of_int (ConcurrentUse r)
      else if c = ''max_concurrent'' then real_of_int (MaxConcurrent r)
      else if c = ''version'' then real_of_int (Version r)
      else if c = ''fail_count'' then real_of_int (FailCount r)
      else 0)"

text \<open>
  The values that an \<open>UPDATE\<close> assigns, and the assignment of a value to a column of a
  row. A value of another type than the column, or a name that is no column of the struct,
  leaves the row as it is.
\<close>

datatype val = VBool bool | VInt int | VReal real | VTime time | VStr string

definition setCol :: "string \<Rightarrow> val \<Rightarrow> Proxy \<Rightarrow> Proxy" where
  "setCol c v r =
     (case v of
        VBool b \<Rightarrow>
          (if c = ''anonymous'' then r\<lparr>Anonymous := b\<rparr>
           else if c = ''available'' then r\<lparr>Available := b\<rparr>
           else r)
      | VInt i \<Rightarrow>
          (if c = ''port'' then r\<lparr>Port := i\<rparr>
           else if c = ''speed'' then r\<lparr>Speed := i\<rparr>
           else if c = ''success'' then r\<lparr>Success := i\<rparr>
           else if c = ''failure'' then r\<lparr>Failure := i\<rparr>
           else if c = ''use_count'' then r\<lparr>UseCount := i\<rparr>
           else if c = ''concurrent_use'' then r\<lparr>ConcurrentUse := i\<rparr>
           else if c = ''max_concurrent'' then r\<lparr>MaxConcurrent := i\<rparr>
           else if c = ''version'' then r\<lparr>Version := i\<rparr>
           else if c = ''fail_count'' then r\<lparr>FailCount := i\<rparr>
           else r)
      | VReal x \<Rightarrow> (if c = ''score'' then r\<lparr>Score := x\<rparr> else r)
      | VTime t \<Rightarrow>
          (if c = ''last_check'' then r\<lparr>LastCheck := t\<rparr>
           else if c = ''last_used_at'' then r\<lparr>LastUsedAt := t\<rparr>
           else r)
      | VStr x \<Rightarrow>
          (if c = ''ip'' then r\<lparr>IP := x\<rparr>
           else if c = ''type'' then r\<lparr>Type := x\<rparr>
           else if c = ''protocol'' then r\<lparr>Protocol := x\<rparr>
           else if c = ''region'' then r\<lparr>Region := x\<rparr>
           else if c = ''source'' then r\<lparr>Source := x\<rparr>
           else r))"

text \<open>
  A \<open>DELETE\<close> and an \<open>UPDATE\<close> with a condition: \<open>names\<close> are the columns that the
  condition names, \<open>w\<close> is the condition on a row. Both are one statement: refused, they
  leave the table as it is.
\<close>

definition db_DeleteWhere :: "string list \<Rightarrow> (Proxy \<Rightarrow> bool) \<Rightarrow> db \<Rightarrow> error + db" where
  "db_DeleteWhere names w d =
     (case checkColumns names of
        Some e \<Rightarrow> Inl e
      | None \<Rightarrow> Inr (d\<lparr>rows := filter (\<lambda>r. \<not> w (cols r)) (rows d)\<rparr>))"

definition db_UpdatesWhere ::
  "string list \<Rightarrow> (Proxy \<Rightarrow> bool) \<Rightarrow> (string \<times> val) list \<Rightarrow> db \<Rightarrow> error + db" where
  "db_UpdatesWhere names w assignments d =
     (case checkColumns (names @ map fst assignments) of
        Some e \<Rightarrow> Inl e
      | None \<Rightarrow>
          Inr (d\<lparr>rows := map (\<lambda>r. if w (cols r)
                                  then r\<lparr>cols := fold (\<lambda>(c, v). setCol c v) assignments (cols r)\<rparr>
                                  else r) (rows d)\<rparr>))"

section \<open>Validator (core/validator.go)\<close>

text \<open>
  The network is a parameter: whether \<open>url.Parse\<close> accepts the proxy URL, and what
  \<open>client.Get\<close> through the proxy gives for a test URL: a transport error or a response
  with its status code, together with the milliseconds the request took. The clock of
  the probe loop advances by the time the requests take. The proxy URL
  \<^verbatim>\<open>protocol://ip:port\<close> is the triple of its three parts.
\<close>

datatype response = TransportError | Status int

type_synonym addr = "string \<times> string \<times> int"

definition proxyAddr :: "Proxy \<Rightarrow> addr" where
  "proxyAddr p = (Protocol p, IP p, Port p)"

record net =
  parse_ok :: "addr \<Rightarrow> bool"
  get :: "addr \<Rightarrow> string \<Rightarrow> response \<times> int"

record ProxyValidator =
  maxWorkers :: nat
  timeout_ms :: int
  testURLs :: "string list"
  maxFailCount :: int

definition NewProxyValidator :: "int \<Rightarrow> ProxyValidator" where
  "NewProxyValidator m =
     \<lparr>maxWorkers = 50, timeout_ms = 5000,
      testURLs = [''http://www.baidu.com'', ''https://store.steampowered.com''],
      maxFailCount = m\<rparr>"

text \<open>
  The probe loop of \<open>ValidateProxy\<close>: the test URLs in order, until the first response
  with status \<open>http.StatusOK\<close>. It returns \<open>success\<close> and the elapsed milliseconds.
\<close>

fun probeLoop :: "(string \<Rightarrow> response \<times> int) \<Rightarrow> string list \<Rightarrow> bool \<times> int" where
  "probeLoop g [] = (False, 0)"
| "probeLoop g (u # us) =
     (case g u of
        (TransportError, t) \<Rightarrow> (case probeLoop g us of (ok, t') \<Rightarrow> (ok, t + t'))
      | (Status c, t) \<Rightarrow>
          if c = 200 then (True, t)
          else (case probeLoop g us of (ok, t') \<Rightarrow> (ok, t + t')))"

text \<open>
  \<open>ValidateProxy\<close> returns the error value of the Go function (\<open>None\<close> for \<open>nil\<close>), the
  struct as the call leaves it, and the store.
\<close>

definition ValidateProxy ::
  "ProxyValidator \<Rightarrow> net \<Rightarrow> time \<Rightarrow> Proxy \<Rightarrow> db \<Rightarrow> error option \<times> Proxy \<times> db" where
  "ValidateProxy v nt now proxy d =
     (if \<not> parse_ok nt (proxyAddr proxy) then (Some ErrURLParse, proxy, d)
      else
        (case probeLoop (get nt (proxyAddr proxy)) (testURLs v) of
           (success, responseTime) \<Rightarrow>
             (let p1 = proxy\<lparr>LastCheck := now, Speed := responseTime, Available := success\<rparr>;
                  p2 = (if success then p1\<lparr>FailCount := 0\<rparr>
                        else p1\<lparr>FailCount := FailCount p1 + 1\<rparr>)
              in if \<not> success \<and> FailCount p2 \<ge> maxFailCount v then
                   (case db_Delete p2 d of
                      Inl e \<Rightarrow> (Some e, p2, d)
                    | Inr d' \<Rightarrow> (None, p2, d'))
                 else
                   (case db_Save now p2 d of
                      Inl e \<Rightarrow> (Some e, p2, d)
                    | Inr (p3, d') \<Rightarrow> (None, p3, d')))))"

text \<open>
  Calling \<open>ValidateProxy\<close> again and again on the same struct, each call with the
  network and the clock reading of its moment.
\<close>

fun ValidateRepeatedly ::
  "ProxyValidator \<Rightarrow> (net \<times> time) list \<Rightarrow> Proxy \<Rightarrow> db \<Rightarrow> Proxy \<times> db" where
  "ValidateRepeatedly v [] p d = (p, d)"
| "ValidateRepeatedly v ((nt, now) # rest) p d =
     (case ValidateProxy v nt now p d of (e, p', d') \<Rightarrow> ValidateRepeatedly v rest p' d')"

text \<open>No canary probe succeeds: the proxy URL parses and the probe loop fails.\<close>

definition probesFail :: "ProxyValidator \<Rightarrow> net \<Rightarrow> Proxy \<Rightarrow> bool" where
  "probesFail v nt p \<longleftrightarrow>
     parse_ok nt (proxyAddr p) \<and> \<not> fst (probeLoop (get nt (proxyAddr p)) (testURLs v))"

definition storedIDs :: "db \<Rightarrow> nat set" where
  "storedIDs d = set (map (\<lambda>r. ID (cols r)) (rows d))"

text \<open>
  For stating what the probe loop does: a response with status 200, and the test URLs
  that the loop requests, which are the ones before the first status 200 and that one.
\<close>

definition is200 :: "response \<times> int \<Rightarrow> bool" where
  "is200 r = (case fst r of TransportError \<Rightarrow> False | Status c \<Rightarrow> c = 200)"

definition attempted :: "(string \<Rightarrow> response \<times> int) \<Rightarrow> string list \<Rightarrow> string list" where
  "attempted g us =
     takeWhile (\<lambda>u. \<not> is200 (g u)) us @ take 1 (dropWhile (\<lambda>u. \<not> is200 (g u)) us)"

section \<open>Pool maintenance (models/proxy.go)\<close>

text \<open>
  \<open>OptimizePool\<close>: delete the rows with \<open>score < 30 OR success_rate < 20\<close>; load the
  rest, update the score of each struct and save it; then set \<open>max_concurrent\<close> to 20 in
  the rows with \<open>score >= 80\<close>. The function returns at the first statement that fails,
  with the error of that statement; what the statements before it wrote stays written. The
  result is the error, if any, and the store that the call leaves.
\<close>

fun saveAll :: "time \<Rightarrow> Proxy list \<Rightarrow> db \<Rightarrow> error option \<times> db" where
  "saveAll now [] d = (None, d)"
| "saveAll now (p # ps) d =
     (case db_Save now p d of Inl e \<Rightarrow> (Some e, d) | Inr (p', d') \<Rightarrow> saveAll now ps d')"

definition OptimizePool :: "time \<Rightarrow> db \<Rightarrow> error option \<times> db" where
  "OptimizePool now d =
     (case db_DeleteWhere [''score'', ''success_rate'']
             (\<lambda>r. numCol ''score'' r < 30 \<or> numCol ''success_rate'' r < 20) d of
        Inl e \<Rightarrow> (Some e, d)
      | Inr d1 \<Rightarrow>
          (let proxies = db_Find d1
           in case saveAll now (map UpdateScore proxies) d1 of
                (Some e, d2) \<Rightarrow> (Some e, d2)
              | (None, d2) \<Rightarrow>
                  (case db_UpdatesWhere [''score''] (\<lambda>r. numCol ''score'' r \<ge> 80)
                          [(''max_concurrent'', VInt 20)] d2 of
                     Inl e \<Rightarrow> (Some e, d2)
                   | Inr d3 \<Rightarrow> (None, d3))))"

section \<open>Ingestion (models/proxy.go, the source adapters, the fetcher)\<close>

text \<open>
  The \<open>Updates\<close> statement of \<open>BatchCreateWithDuplicateCheck\<close>, on one row: a row with
  the \<open>ip\<close> and \<open>port\<close> of the struct gets its five descriptive columns.
\<close>

definition updDescr :: "Proxy \<Rightarrow> row \<Rightarrow> row" where
  "updDescr p r =
     (if IP (cols r) = IP p \<and> Port (cols r) = Port p
      then r\<lparr>cols := (cols r)\<lparr>Type := Type p, Protocol := Protocol p, Region := Region p,
                              Source := Source p, Anonymous := Anonymous p\<rparr>\<rparr>
      else r)"

text \<open>One turn of the loop: create the row if no row has this \<open>ip\<close> and \<open>port\<close>, else update.\<close>

definition batchStep :: "time \<Rightarrow> Proxy \<Rightarrow> db \<Rightarrow> error + (Proxy \<times> db)" where
  "batchStep now proxy d =
     (if \<not> IsProxyExists d (IP proxy) (Port proxy) then db_Create now proxy d
      else Inr (proxy, d\<lparr>rows := map (updDescr proxy) (rows d)\<rparr>))"

fun batchLoop :: "time \<Rightarrow> Proxy list \<Rightarrow> db \<Rightarrow> error + (Proxy list \<times> db)" where
  "batchLoop now [] d = Inr ([], d)"
| "batchLoop now (proxy # rest) d =
     (case batchStep now proxy d of
        Inl e \<Rightarrow> Inl e
      | Inr (proxy', d') \<Rightarrow>
          (case batchLoop now rest d' of
             Inl e \<Rightarrow> Inl e
           | Inr (rest', d'') \<Rightarrow> Inr (proxy' # rest', d'')))"

text \<open>
  \<open>BatchCreateWithDuplicateCheck\<close> runs the loop in one transaction. The result is the
  structs as the loop leaves them and the new store; on an error the transaction is rolled
  back, and the store is the one before the call.
\<close>

definition BatchCreateWithDuplicateCheck ::
  "time \<Rightarrow> Proxy list \<Rightarrow> db \<Rightarrow> error + (Proxy list \<times> db)" where
  "BatchCreateWithDuplicateCheck now proxies d =
     (if length proxies = 0 then Inr (proxies, d) else batchLoop now proxies d)"

definition SaveProxies :: "time \<Rightarrow> Proxy list \<Rightarrow> db \<Rightarrow> error + (Proxy list \<times> db)" where
  "SaveProxies now proxies d = BatchCreateWithDuplicateCheck now proxies d"

text \<open>
  The candidate that \<open>KuaidailiSource.fetchFromAPI\<close> builds from an \<open>ip:port\<close> entry of
  the provider's answer; the fields it does not set have Go's zero value.
\<close>

definition kuaidailiCandidate :: "string \<times> int \<Rightarrow> Proxy" where
  "kuaidailiCandidate e =
     \<lparr>ID = 0, IP = fst e, Port = snd e, Type = ProxyTypeLong, Protocol = ''http'',
      Region = [], Source = ''kuaidaili_paid'', Anonymous = True, Speed = 0,
      Success = 0, Failure = 0, Score = 0, LastCheck = 0, Available = False, UseCount = 0,
      ConcurrentUse = 0, MaxConcurrent = 0, LastUsedAt = 0, Version = 0, FailCount = 0\<rparr>"

text \<open>
  \<open>KuaidailiSource.FetchProxies\<close>. The answer of the provider is a parameter: an error,
  or the well-formed \<open>ip:port\<close> entries of the list.
\<close>

definition KuaidailiSource_FetchProxies ::
  "time \<Rightarrow> error + (string \<times> int) list \<Rightarrow> db \<Rightarrow> (error + Proxy list) \<times> db" where
  "KuaidailiSource_FetchProxies now api d =
     (case api of
        Inl e \<Rightarrow> (Inl e, d)
      | Inr entries \<Rightarrow>
          (case SaveProxies now (map kuaidailiCandidate entries) d of
             Inl e \<Rightarrow> (Inl e, d)
           | Inr (proxies, d') \<Rightarrow> (Inr proxies, d')))"

text \<open>
  \<open>ProxyFetcher.addProxy\<close>: skip a proxy whose \<open>ip\<close> and \<open>port\<close> are stored, validate
  the others, and create the ones that the validation leaves available.
\<close>

definition addProxy ::
  "int \<Rightarrow> net \<Rightarrow> time \<Rightarrow> Proxy \<Rightarrow> db \<Rightarrow> error option \<times> Proxy \<times> db" where
  "addProxy maxFail nt now proxy d =
     (if IsProxyExists d (IP proxy) (Port proxy) then (None, proxy, d)
      else
        (case ValidateProxy (NewProxyValidator maxFail) nt now proxy d of
           (Some e, p1, d1) \<Rightarrow> (None, p1, d1)
         | (None, p1, d1) \<Rightarrow>
             if \<not> Available p1 then (None, p1, d1)
             else (case db_Create now p1 d1 of
                     Inl e \<Rightarrow> (Some e, p1, d1)
                   | Inr (p2, d2) \<Rightarrow> (None, p2, d2))))"

text \<open>For stating the upsert: the key of a row, and the last struct of a batch with a key.\<close>

definition lastWithKey :: "Proxy list \<Rightarrow> string \<times> int \<Rightarrow> Proxy option" where
  "lastWithKey ps k = find (\<lambda>p. (IP p, Port p) = k) (rev ps)"

text \<open>What a source fills in: the address and the five descriptive fields.\<close>

definition candidateFields :: "Proxy \<Rightarrow> string \<times> int \<times> string \<times> string \<times> string \<times> string \<times> bool" where
  "candidateFields p = (IP p, Port p, Type p, Protocol p, Region p, Source p, Anonymous p)"

section \<open>Scheduler (core/scheduler.go)\<close>

text \<open>
  The runtime state of the scheduler: its five maps and its readers-writer mutex. A Go
  map read of a missing key gives the zero value.

  The mutex \<open>mu\<close> is the number of read locks held and whether the write lock is held.
  The model runs one call at a time, so a lock that is held is held by the calling
  goroutine itself; \<open>sync.RWMutex\<close> is not reentrant, and a \<open>Lock\<close> that finds a read
  lock or the write lock held is never granted. A call that blocks for ever has the
  result \<open>None\<close>.
\<close>

record ProxyScheduler =
  mu_readers :: nat
  mu_writer :: bool
  lastUsed :: "nat \<rightharpoonup> time"
  useCount :: "nat \<rightharpoonup> int"
  failCount :: "nat \<rightharpoonup> int"
  weights :: "nat \<rightharpoonup> real"
  cooldown :: "nat \<rightharpoonup> time"

definition NewProxyScheduler :: ProxyScheduler where
  "NewProxyScheduler =
     \<lparr>mu_readers = 0, mu_writer = False, lastUsed = Map.empty, useCount = Map.empty,
      failCount = Map.empty, weights = Map.empty, cooldown = Map.empty\<rparr>"

definition getInt :: "(nat \<rightharpoonup> int) \<Rightarrow> nat \<Rightarrow> int" where
  "getInt m k = (case m k of None \<Rightarrow> 0 | Some v \<Rightarrow> v)"

definition getReal :: "(nat \<rightharpoonup> real) \<Rightarrow> nat \<Rightarrow> real" where
  "getReal m k = (case m k of None \<Rightarrow> 0 | Some v \<Rightarrow> v)"

definition getTime :: "(nat \<rightharpoonup> time) \<Rightarrow> nat \<Rightarrow> time" where
  "getTime m k = (case m k of None \<Rightarrow> 0 | Some v \<Rightarrow> v)"

definition RLock :: "ProxyScheduler \<Rightarrow> ProxyScheduler option" where
  "RLock s = (if mu_writer s then None else Some (s\<lparr>mu_readers := mu_readers s + 1\<rparr>))"

definition RUnlock :: "ProxyScheduler \<Rightarrow> ProxyScheduler" where
  "RUnlock s = s\<lparr>mu_readers := mu_readers s - 1\<rparr>"

definition Lock :: "ProxyScheduler \<Rightarrow> ProxyScheduler option" where
  "Lock s = (if mu_readers s = 0 \<and> \<not> mu_writer s then Some (s\<lparr>mu_writer := True\<rparr>) else None)"

definition Unlock :: "ProxyScheduler \<Rightarrow> ProxyScheduler" where
  "Unlock s = s\<lparr>mu_writer := False\<rparr>"

text \<open>Durations in nanoseconds; \<open>time.Since\<close> saturates at the ends of \<open>int64\<close>.\<close>

definition Second :: int where "Second = 1000000000"
definition Minute :: int where "Minute = 60 * Second"

definition since :: "time \<Rightarrow> time \<Rightarrow> int" where
  "since now t = max (- (2 ^ 63)) (min (2 ^ 63 - 1) (now - t))"

text \<open>
  The task of a request. Its field \<open>Domain\<close> is \<open>TaskDomain\<close> here, since \<open>Domain\<close>
  is a constant of HOL; \<open>Timeout\<close> is a duration.
\<close>

record Task =
  ProxyType :: string
  Strategy :: string
  Priority :: int
  Timeout :: int
  RetryCount :: int
  TargetURL :: string
  TaskDomain :: string
  RequireAnon :: bool
  MaxFailures :: int
  MinSpeed :: int

definition StrategyWeighted :: string where "StrategyWeighted = ''weighted''"
definition StrategyRoundRobin :: string where "StrategyRoundRobin = ''roundrobin''"
definition StrategyLeastUsed :: string where "StrategyLeastUsed = ''leastused''"
definition StrategyFailover :: string where "StrategyFailover = ''failover''"
definition StrategySiteAdaptive :: string where "StrategySiteAdaptive = ''site_adaptive''"

text \<open>
  The random source is a parameter: \<open>float64\<close> is the value of \<open>rand.Float64()\<close>, in
  \<open>[0, 1)\<close>, and \<open>rand.Intn(n)\<close> is the raw draw \<open>intn\<close> reduced below \<open>n\<close>.
\<close>

record rng =
  float64 :: real
  intn :: nat

definition Intn :: "rng \<Rightarrow> nat \<Rightarrow> nat" where
  "Intn g n = intn g mod n"

text \<open>\<open>calculateScore\<close> of the scheduler.\<close>

definition calculateScore :: "Proxy \<Rightarrow> real" where
  "calculateScore proxy =
     (let successRate = GetSuccessRate proxy;
          speed = real_of_int (Speed proxy);
          useCnt = real_of_int (UseCount proxy);
          score0 = successRate * 0.6;
          score1 = (if speed > 0 then score0 + max 0 (100 - speed / 50) * 0.3 else score0)
      in if useCnt > 0 then score1 + max 0 (100 - useCnt / 100) * 0.1 else score1)"

text \<open>
  \<open>isProxyQualified\<close>; it deletes a cooldown entry that has run out, so it returns the
  state as well.
\<close>

definition isProxyQualified ::
  "time \<Rightarrow> Proxy \<Rightarrow> Task \<Rightarrow> ProxyScheduler \<Rightarrow> bool \<times> ProxyScheduler" where
  "isProxyQualified now proxy task s =
     (if ProxyType task \<noteq> [] \<and> Type proxy \<noteq> ProxyType task then (False, s)
      else
        (case cooldown s (ID proxy) of
           Some cooldownTime \<Rightarrow>
             if now < cooldownTime then (False, s)
             else
               (let s1 = s\<lparr>cooldown := (cooldown s)(ID proxy := None)\<rparr>
                in if getInt (failCount s1) (ID proxy) \<ge> 3 then (False, s1) else (True, s1))
         | None \<Rightarrow>
             if getInt (failCount s) (ID proxy) \<ge> 3 then (False, s) else (True, s)))"

text \<open>\<open>updateProxyStats\<close>; it takes the write lock.\<close>

definition updateProxyStats ::
  "time \<Rightarrow> Proxy \<Rightarrow> bool \<Rightarrow> ProxyScheduler \<Rightarrow> ProxyScheduler option" where
  "updateProxyStats now proxy success s =
     (case Lock s of
        None \<Rightarrow> None
      | Some s0 \<Rightarrow>
          (let i = ID proxy;
               s1 = s0\<lparr>lastUsed := (lastUsed s0)(i \<mapsto> now),
                        useCount := (useCount s0)(i \<mapsto> getInt (useCount s0) i + 1)\<rparr>;
               s2 = (if \<not> success then
                       (let s' = s1\<lparr>failCount := (failCount s1)(i \<mapsto> getInt (failCount s1) i + 1)\<rparr>
                        in if getInt (failCount s') i \<ge> 3
                           then s'\<lparr>cooldown := (cooldown s')(i \<mapsto> now + 5 * Minute)\<rparr>
                           else s')
                     else s1\<lparr>failCount := (failCount s1)(i \<mapsto> 0),
                             cooldown := (cooldown s1)(i := None)\<rparr>);
               s3 = s2\<lparr>weights := (weights s2)(i \<mapsto> calculateScore proxy)\<rparr>
           in Some (Unlock s3)))"

text \<open>The loop that collects the qualified candidates, shared by four strategies.\<close>

fun qualifiedCandidates ::
  "time \<Rightarrow> Task \<Rightarrow> Proxy list \<Rightarrow> ProxyScheduler \<Rightarrow> Proxy list \<times> ProxyScheduler" where
  "qualifiedCandidates now task [] s = ([], s)"
| "qualifiedCandidates now task (proxy # rest) s =
     (case isProxyQualified now proxy task s of
        (ok, s1) \<Rightarrow>
          (case qualifiedCandidates now task rest s1 of
             (cs, s2) \<Rightarrow> (if ok then proxy # cs else cs, s2)))"

text \<open>
  \<open>sort.Slice\<close> and SQL's \<open>ORDER BY\<close> as an insertion sort by the \<open>less\<close> function. Both
  leave the order of ties open; the model keeps ties in the order of the input.
\<close>

fun insertBy :: "('a \<Rightarrow> 'a \<Rightarrow> bool) \<Rightarrow> 'a \<Rightarrow> 'a list \<Rightarrow> 'a list" where
  "insertBy lt x [] = [x]"
| "insertBy lt x (y # ys) = (if lt y x then y # insertBy lt x ys else x # y # ys)"

definition sortSlice :: "('a \<Rightarrow> 'a \<Rightarrow> bool) \<Rightarrow> 'a list \<Rightarrow> 'a list" where
  "sortSlice lt xs = foldr (insertBy lt) xs []"

text \<open>
  The tail of the four strategies: mark the selected proxy as used and return it.
\<close>

definition selectProxy ::
  "time \<Rightarrow> Proxy \<Rightarrow> ProxyScheduler \<Rightarrow> ((error + Proxy) \<times> ProxyScheduler) option" where
  "selectProxy now selected s =
     (case updateProxyStats now selected True s of
        None \<Rightarrow> None
      | Some s' \<Rightarrow> Some (Inr selected, s'))"

text \<open>The candidates of \<open>weightedSchedule\<close> with their weights.\<close>

fun weightedCandidates ::
  "time \<Rightarrow> Task \<Rightarrow> Proxy list \<Rightarrow> ProxyScheduler \<Rightarrow> (Proxy \<times> real) list \<times> ProxyScheduler" where
  "weightedCandidates now task [] s = ([], s)"
| "weightedCandidates now task (proxy # rest) s =
     (case isProxyQualified now proxy task s of
        (ok, s1) \<Rightarrow>
          if \<not> ok then weightedCandidates now task rest s1
          else if getInt (failCount s1) (ID proxy) \<ge> 3 then weightedCandidates now task rest s1
          else
            (let w0 = getReal (weights s1) (ID proxy);
                 weight = (if w0 = 0 then calculateScore proxy else w0);
                 s2 = (if w0 = 0 then s1\<lparr>weights := (weights s1)(ID proxy \<mapsto> weight)\<rparr> else s1)
             in case weightedCandidates now task rest s2 of
                  (cs, s3) \<Rightarrow> ((proxy, weight) # cs, s3)))"

text \<open>
  The pick of \<open>weightedSchedule\<close>: \<open>r\<close> starts at the draw times the total weight, each
  weight is subtracted in turn, and the first index with \<open>r <= 0\<close> is taken; the last
  index is the fallback.
\<close>

fun pickLoop :: "real \<Rightarrow> real list \<Rightarrow> nat \<Rightarrow> nat option" where
  "pickLoop r [] i = None"
| "pickLoop r (w # ws) i = (if r - w \<le> 0 then Some i else pickLoop (r - w) ws (i + 1))"

definition weightedPick :: "real \<Rightarrow> real list \<Rightarrow> nat" where
  "weightedPick draw ws =
     (let totalWeight = foldl (+) 0 ws
      in case pickLoop (draw * totalWeight) ws 0 of
           Some i \<Rightarrow> i
         | None \<Rightarrow> length ws - 1)"

text \<open>
  \<open>weightedSchedule\<close> in two parts. \<open>weightedChoose\<close> is the body up to the call of
  \<open>updateProxyStats\<close>: the error that is returned, or the candidate that is handed to
  \<open>updateProxyStats\<close> and returned after it.
\<close>

definition weightedChoose ::
  "time \<Rightarrow> rng \<Rightarrow> Proxy list \<Rightarrow> Task \<Rightarrow> ProxyScheduler \<Rightarrow> (error + Proxy) \<times> ProxyScheduler" where
  "weightedChoose now g proxies task s =
     (if length proxies = 0 then (Inl ErrNoProxyAvailable, s)
      else
        (case weightedCandidates now task proxies s of
           (cs, s1) \<Rightarrow>
             if length cs = 0 then (Inl ErrNoQualifiedProxy, s1)
             else (Inr (fst (cs ! weightedPick (float64 g) (map snd cs))), s1)))"

definition weightedSchedule ::
  "time \<Rightarrow> rng \<Rightarrow> Proxy list \<Rightarrow> Task \<Rightarrow> ProxyScheduler
     \<Rightarrow> ((error + Proxy) \<times> ProxyScheduler) option" where
  "weightedSchedule now g proxies task s =
     (case weightedChoose now g proxies task s of
        (Inl e, s1) \<Rightarrow> Some (Inl e, s1)
      | (Inr selected, s1) \<Rightarrow> selectProxy now selected s1)"

definition roundRobinSchedule ::
  "time \<Rightarrow> Proxy list \<Rightarrow> Task \<Rightarrow> ProxyScheduler \<Rightarrow> ((error + Proxy) \<times> ProxyScheduler) option" where
  "roundRobinSchedule now proxies task s =
     (if length proxies = 0 then Some (Inl ErrNoProxyAvailable, s)
      else
        (case qualifiedCandidates now task proxies s of
           (cs, s1) \<Rightarrow>
             if length cs = 0 then Some (Inl ErrNoQualifiedProxy, s1)
             else selectProxy now
                    (sortSlice (\<lambda>a b. getTime (lastUsed s1) (ID a) < getTime (lastUsed s1) (ID b)) cs ! 0)
                    s1))"

definition leastUsedSchedule ::
  "time \<Rightarrow> Proxy list \<Rightarrow> Task \<Rightarrow> ProxyScheduler \<Rightarrow> ((error + Proxy) \<times> ProxyScheduler) option" where
  "leastUsedSchedule now proxies task s =
     (if length proxies = 0 then Some (Inl ErrNoProxyAvailable, s)
      else
        (case qualifiedCandidates now task proxies s of
           (cs, s1) \<Rightarrow>
             if length cs = 0 then Some (Inl ErrNoQualifiedProxy, s1)
             else selectProxy now
                    (sortSlice (\<lambda>a b. getInt (useCount s1) (ID a) < getInt (useCount s1) (ID b)) cs ! 0)
                    s1))"

definition failoverSchedule ::
  "time \<Rightarrow> Proxy list \<Rightarrow> Task \<Rightarrow> ProxyScheduler \<Rightarrow> ((error + Proxy) \<times> ProxyScheduler) option" where
  "failoverSchedule now proxies task s =
     (if length proxies = 0 then Some (Inl ErrNoProxyAvailable, s)
      else
        (case qualifiedCandidates now task proxies s of
           (cs, s1) \<Rightarrow>
             if length cs = 0 then Some (Inl ErrNoQualifiedProxy, s1)
             else selectProxy now
                    (sortSlice (\<lambda>a b. getInt (failCount s1) (ID a) < getInt (failCount s1) (ID b)) cs ! 0)
                    s1))"

definition defaultSchedule ::
  "time \<Rightarrow> rng \<Rightarrow> Proxy list \<Rightarrow> Task \<Rightarrow> ProxyScheduler
     \<Rightarrow> ((error + Proxy) \<times> ProxyScheduler) option" where
  "defaultSchedule now g proxies task s =
     (if length proxies = 0 then Some (Inl ErrNoProxyAvailable, s)
      else
        (case qualifiedCandidates now task proxies s of
           (cs, s1) \<Rightarrow>
             if length cs = 0 then Some (Inl ErrNoQualifiedProxy, s1)
             else selectProxy now (cs ! Intn g (length cs)) s1))"

record adaptiveProxy =
  a_proxy :: Proxy
  a_useCount :: int
  a_lastUsed :: time
  a_score :: real

text \<open>The \<open>less\<close> function of \<open>siteAdaptiveSchedule\<close>.\<close>

definition adaptiveLess :: "time \<Rightarrow> adaptiveProxy \<Rightarrow> adaptiveProxy \<Rightarrow> bool" where
  "adaptiveLess now ci cj =
     (if \<bar>a_useCount ci - a_useCount cj\<bar> > 2 then a_useCount ci < a_useCount cj
      else
        (let timeDiffI = since now (a_lastUsed ci);
             timeDiffJ = since now (a_lastUsed cj)
         in if timeDiffI > 5 * Second \<or> timeDiffJ > 5 * Second then timeDiffI > timeDiffJ
            else a_score ci > a_score cj))"

definition siteAdaptiveSchedule ::
  "time \<Rightarrow> rng \<Rightarrow> Proxy list \<Rightarrow> Task \<Rightarrow> ProxyScheduler
     \<Rightarrow> ((error + Proxy) \<times> ProxyScheduler) option" where
  "siteAdaptiveSchedule now g proxies task s =
     (if TaskDomain task = [] then defaultSchedule now g proxies task s
      else
        (let candidates =
               map (\<lambda>proxy. \<lparr>a_proxy = proxy, a_useCount = getInt (useCount s) (ID proxy),
                             a_lastUsed = getTime (lastUsed s) (ID proxy),
                             a_score = Score proxy\<rparr>) proxies
         in if length candidates = 0 then Some (Inl ErrNoQualifiedProxy, s)
            else
              (let sorted = sortSlice (adaptiveLess now) candidates;
                   selectedIndex = (if length sorted > 3 then Intn g 3 else 0)
               in selectProxy now (a_proxy (sorted ! selectedIndex)) s)))"

section \<open>Pool (core/pool.go)\<close>

text \<open>
  \<open>GetProxies\<close>: the available rows of a type, by \<open>success_rate DESC, speed ASC\<close>, at
  most \<open>limit\<close> of them; one \<open>SELECT\<close> that names four columns.
\<close>

definition GetProxies :: "db \<Rightarrow> string \<Rightarrow> nat \<Rightarrow> error + Proxy list" where
  "GetProxies d proxyType limit =
     (case checkColumns [''type'', ''available'', ''success_rate'', ''speed''] of
        Some e \<Rightarrow> Inl e
      | None \<Rightarrow>
          Inr (take limit
                 (sortSlice (\<lambda>a b. numCol ''success_rate'' a > numCol ''success_rate'' b
                                    \<or> (numCol ''success_rate'' a = numCol ''success_rate'' b
                                        \<and> numCol ''speed'' a < numCol ''speed'' b))
                    (filter (\<lambda>r. Type r = proxyType \<and> Available r) (db_Find d)))))"

definition calculateSuccessRate :: "Proxy \<Rightarrow> bool \<Rightarrow> real" where
  "calculateSuccessRate proxy success =
     (let currentRate = GetSuccessRate proxy
      in if success then currentRate * 0.8 + 100 * 0.2 else currentRate * 0.8)"

text \<open>
  \<open>UpdateProxyStatus\<close>: one \<open>UPDATE\<close> that assigns \<open>available\<close>, \<open>speed\<close>,
  \<open>last_check\<close> and \<open>success_rate\<close> in the row of the struct's key; the library refuses
  the statement when the key is zero.
\<close>

definition UpdateProxyStatus :: "time \<Rightarrow> Proxy \<Rightarrow> bool \<Rightarrow> int \<Rightarrow> db \<Rightarrow> error + db" where
  "UpdateProxyStatus now proxy available speed d =
     (if ID proxy = 0 then Inl ErrMissingWhereClause
      else db_UpdatesWhere [''id''] (\<lambda>r. ID r = ID proxy)
             [(''available'', VBool available), (''speed'', VInt speed),
              (''last_check'', VTime now),
              (''success_rate'', VReal (calculateSuccessRate proxy available))] d)"

text \<open>
  \<open>ScheduleProxy\<close> holds the read lock of the scheduler from its first statement to its
  return; it returns the error of \<open>GetProxies\<close> before it looks at the strategy.
\<close>

definition ScheduleProxy ::
  "time \<Rightarrow> rng \<Rightarrow> Task \<Rightarrow> db \<Rightarrow> ProxyScheduler \<Rightarrow> ((error + Proxy) \<times> ProxyScheduler) option" where
  "ScheduleProxy now g task d s =
     (case RLock s of
        None \<Rightarrow> None
      | Some s0 \<Rightarrow>
          (case GetProxies d (ProxyType task) 50 of
             Inl e \<Rightarrow> Some (Inl e, RUnlock s0)
           | Inr proxies \<Rightarrow>
               (let result =
                      (if Strategy task = StrategySiteAdaptive
                         then siteAdaptiveSchedule now g proxies task s0
                       else if Strategy task = StrategyWeighted
                         then weightedSchedule now g proxies task s0
                       else if Strategy task = StrategyRoundRobin
                         then roundRobinSchedule now proxies task s0
                       else if Strategy task = StrategyLeastUsed
                         then leastUsedSchedule now proxies task s0
                       else if Strategy task = StrategyFailover
                         then failoverSchedule now proxies task s0
                       else defaultSchedule now g proxies task s0)
                in case result of
                     None \<Rightarrow> None
                   | Some (r, s1) \<Rightarrow> Some (r, RUnlock s1))))"

text \<open>
  \<open>ReportProxyStatus\<close>: look the proxy up by its key, update the runtime maps, and on a
  failure write the status to the store. An error of the store write is dropped.
\<close>

definition ReportProxyStatus ::
  "time \<Rightarrow> nat \<Rightarrow> bool \<Rightarrow> int \<Rightarrow> db \<Rightarrow> ProxyScheduler \<Rightarrow> (ProxyScheduler \<times> db) option" where
  "ReportProxyStatus now proxyID success speed d s =
     (case db_First d proxyID of
        Inl e \<Rightarrow> Some (s, d)
      | Inr proxy \<Rightarrow>
          (case updateProxyStats now proxy success s of
             None \<Rightarrow> None
           | Some s' \<Rightarrow>
               if \<not> success then
                 (case UpdateProxyStatus now proxy False speed d of
                    Inl e \<Rightarrow> Some (s', d)
                  | Inr d' \<Rightarrow> Some (s', d'))
               else Some (s', d)))"

section \<open>Example values\<close>

definition exProxy :: Proxy where
  "exProxy =
     \<lparr>ID = 1, IP = ''1.2.3.4'', Port = 8080, Type = ''long'', Protocol = ''http'',
      Region = ''cn'', Source = ''kuaidaili_paid'', Anonymous = False, Speed = 0,
      Success = 0, Failure = 0, Score = 0, LastCheck = 0, Available = True, UseCount = 0,
      ConcurrentUse = 0, MaxConcurrent = 10, LastUsedAt = 0, Version = 0, FailCount = 0\<rparr>"

definition exStore :: db where
  "exStore = \<lparr>rows = [\<lparr>cols = exProxy\<rparr>], next_id = 2\<rparr>"

text \<open>A network on which every request fails after 5000 ms.\<close>

definition deadNet :: net where
  "deadNet = \<lparr>parse_ok = (\<lambda>a. True), get = (\<lambda>a u. (TransportError, 5000))\<rparr>"

text \<open>
  A network on which the first test URL answers 204 No Content after 120 ms and the
  second request fails.
\<close>

definition net204 :: net where
  "net204 = \<lparr>parse_ok = (\<lambda>a. True),
             get = (\<lambda>a u. if u = ''http://www.baidu.com'' then (Status 204, 120)
                           else (TransportError, 5000))\<rparr>"

text \<open>
  A network on which the first test URL answers 503 after 300 ms and the second answers
  200 after 450 ms.
\<close>

definition liveNet :: net where
  "liveNet = \<lparr>parse_ok = (\<lambda>a. True),
              get = (\<lambda>a u. if u = ''http://www.baidu.com'' then (Status 503, 300)
                            else (Status 200, 450))\<rparr>"

text \<open>
  A store seeded with a proxy of score 10 and a proxy of score 85 that has nine successes
  and one failure.
\<close>

definition exLow :: Proxy where
  "exLow = exProxy\<lparr>ID := 1, Score := 10\<rparr>"

definition exHigh :: Proxy where
  "exHigh = exProxy\<lparr>ID := 2, Score := 85, Success := 9, Failure := 1\<rparr>"

definition exSeed :: db where
  "exSeed = \<lparr>rows = [\<lparr>cols = exLow\<rparr>, \<lparr>cols = exHigh\<rparr>],
             next_id = 3\<rparr>"

text \<open>The struct that a successful validation of \<open>exProxy\<close> leaves.\<close>

definition exValidated :: Proxy where
  "exValidated = fst (snd (ValidateProxy (NewProxyValidator 3) liveNet 777 exProxy exStore))"

definition emptyStore :: db where
  "emptyStore = \<lparr>rows = [], next_id = 1\<rparr>"

text \<open>
  A stored row with a history, and a batch of two candidates: the first has the address of
  the stored row, the second is new.
\<close>

definition exUsed :: Proxy where
  "exUsed = exProxy\<lparr>Speed := 320, Success := 7, Failure := 2, Score := 71, FailCount := 1\<rparr>"

definition exUsedStore :: db where
  "exUsedStore = \<lparr>rows = [\<lparr>cols = exUsed\<rparr>], next_id = 2\<rparr>"

definition exBatch :: "Proxy list" where
  "exBatch = [(kuaidailiCandidate (''1.2.3.4'', 8080))\<lparr>Source := ''wandou_paid''\<rparr>,
              kuaidailiCandidate (''5.6.7.8'', 80)]"

definition exFetched :: Proxy where
  "exFetched = (kuaidailiCandidate (''1.2.3.4'', 8080))
                 \<lparr>ID := 1, LastCheck := 777, Available := True, MaxConcurrent := 10\<rparr>"

text \<open>
  Tasks: one that requires an anonymous proxy and a minimal speed, one for the
  site-adaptive strategy with a domain, one for the weighted strategy.
\<close>

definition exAnonTask :: Task where
  "exAnonTask =
     \<lparr>ProxyType = ''long'', Strategy = StrategyRoundRobin, Priority = 0, Timeout = 10 * Second,
      RetryCount = 0, TargetURL = [], TaskDomain = [], RequireAnon = True, MaxFailures = 3,
      MinSpeed = 100\<rparr>"

definition exSiteTask :: Task where
  "exSiteTask =
     \<lparr>ProxyType = ''long'', Strategy = StrategySiteAdaptive, Priority = 0,
      Timeout = 10 * Second, RetryCount = 0, TargetURL = ''http://example.com/'',
      TaskDomain = ''example.com'', RequireAnon = False, MaxFailures = 3, MinSpeed = 0\<rparr>"


definition exRng :: rng where
  "exRng = \<lparr>float64 = 1 / 2, intn = 0\<rparr>"

text \<open>
  The runtime state after three failures of proxy 1 were reported at time 777: the proxy
  is in cooldown until five minutes later.
\<close>

definition exCooling :: ProxyScheduler where
  "exCooling =
     NewProxyScheduler\<lparr>lastUsed := [1 \<mapsto> 777], useCount := [1 \<mapsto> 3], failCount := [1 \<mapsto> 3],
                       weights := [1 \<mapsto> 0], cooldown := [1 \<mapsto> 777 + 5 * Minute]\<rparr>"

text \<open>The row of proxy 1 after a later validation succeeded at time 900.\<close>

definition exRecovered :: Proxy where
  "exRecovered = exProxy\<lparr>Speed := 750, LastCheck := 900\<rparr>"

definition exRecoveredStore :: db where
  "exRecoveredStore = \<lparr>rows = [\<lparr>cols = exRecovered\<rparr>], next_id = 2\<rparr>"

text \<open>A stored row that is marked unavailable.\<close>

definition exDown :: Proxy where
  "exDown = exUsed\<lparr>Available := False\<rparr>"

definition exDownStore :: db where
  "exDownStore = \<lparr>rows = [\<lparr>cols = exDown\<rparr>], next_id = 2\<rparr>"


text \<open>The runtime state after two failures of proxy 1 were reported.\<close>

definition exTwoFails :: ProxyScheduler where
  "exTwoFails = NewProxyScheduler\<lparr>useCount := [1 \<mapsto> 2], failCount := [1 \<mapsto> 2]\<rparr>"

section \<open>Validation: failure and eviction\<close>

lemma find_replaced_row:
  "i \<in> set (map (\<lambda>r. ID (cols r)) rs) \<Longrightarrow> ID q = i \<Longrightarrow>
   map_option cols
     (find (\<lambda>r. ID (cols r) = i) (map (\<lambda>r. if ID (cols r) = i then r\<lparr>cols := q\<rparr> else r) rs))
   = Some q"
  by (induction rs) auto

lemma db_First_replaced:
  assumes "ID q \<in> storedIDs d"
  shows "db_First (d\<lparr>rows := map (\<lambda>r. if ID (cols r) = ID q then r\<lparr>cols := q\<rparr> else r) (rows d)\<rparr>)
           (ID q) = Inr q"
  using find_replaced_row [of "ID q" "rows d" q] assms
  by (auto simp: db_First_def storedIDs_def split: option.splits)

lemma ValidateProxy_fail_step:
  assumes "probesFail v nt p" and "ID p \<noteq> 0"
  shows "\<exists>e p' d'. ValidateProxy v nt now p d = (e, p', d') \<and>
     FailCount p' = FailCount p + 1 \<and> ID p' = ID p \<and> proxyAddr p' = proxyAddr p \<and>
     LastCheck p' = now \<and>
     (maxFailCount v \<le> FailCount p + 1 \<longrightarrow>
        e = None \<and> \<not> Available p' \<and>
        rows d' = filter (\<lambda>r. ID (cols r) \<noteq> ID p) (rows d) \<and> next_id d' = next_id d) \<and>
     (FailCount p + 1 < maxFailCount v \<longrightarrow> ID p \<in> storedIDs d \<longrightarrow>
        e = None \<and> \<not> Available p' \<and> db_First d' (ID p) = Inr p' \<and>
        rows d' = map (\<lambda>r. if ID (cols r) = ID p then r\<lparr>cols := p'\<rparr> else r) (rows d))"
proof -
  obtain t where pl: "probeLoop (get nt (proxyAddr p)) (testURLs v) = (False, t)"
    using assms(1)
    by (cases "probeLoop (get nt (proxyAddr p)) (testURLs v)") (auto simp: probesFail_def)
  define q where
    "q = p\<lparr>LastCheck := now, Speed := t, Available := False, FailCount := FailCount p + 1\<rparr>"
  have idq: "ID q = ID p" by (simp add: q_def)
  show ?thesis
  proof (cases "maxFailCount v \<le> FailCount p + 1")
    case True
    then have "ValidateProxy v nt now p d =
        (None, q, d\<lparr>rows := filter (\<lambda>r. ID (cols r) \<noteq> ID p) (rows d)\<rparr>)"
      using assms pl by (simp add: ValidateProxy_def probesFail_def db_Delete_def q_def)
    then show ?thesis using True by (simp add: q_def proxyAddr_def)
  next
    case False
    show ?thesis
    proof (cases "ID p \<in> storedIDs d")
      case True
      then have "ValidateProxy v nt now p d =
          (None, q,
           d\<lparr>rows := map (\<lambda>r. if ID (cols r) = ID q then r\<lparr>cols := q\<rparr> else r) (rows d)\<rparr>)"
        using assms pl False
        by (simp add: ValidateProxy_def probesFail_def db_Save_def q_def storedIDs_def Let_def)
      moreover have
        "db_First (d\<lparr>rows := map (\<lambda>r. if ID (cols r) = ID q then r\<lparr>cols := q\<rparr> else r) (rows d)\<rparr>)
           (ID q) = Inr q"
        using True idq db_First_replaced [of q d] by simp
      ultimately show ?thesis using False idq by (simp add: q_def proxyAddr_def)
    next
      case nin: False
      then have "ValidateProxy v nt now p d =
          (None, applyDefaults q,
           d\<lparr>rows := rows d @ [\<lparr>cols = applyDefaults q\<rparr>],
             next_id := max (next_id d) (ID (applyDefaults q) + 1)\<rparr>)"
        using assms pl False
        by (simp add: ValidateProxy_def probesFail_def db_Save_def q_def storedIDs_def Let_def)
      then show ?thesis using False nin
        by (simp add: q_def proxyAddr_def applyDefaults_def Let_def)
    qed
  qed
qed

lemma ValidateRepeatedly_evicts:
  assumes "runs \<noteq> []" and "\<forall>(nt, now) \<in> set runs. probesFail v nt p" and "ID p \<noteq> 0"
    and "maxFailCount v \<le> FailCount p + int (length runs)"
  shows "ID p \<notin> storedIDs (snd (ValidateRepeatedly v runs p d))"
  using assms
proof (induction runs arbitrary: p d)
  case Nil
  then show ?case by simp
next
  case (Cons x rest)
  obtain nt now where x: "x = (nt, now)" by (cases x)
  have pf: "probesFail v nt p" using Cons.prems(2) x by simp
  obtain e p' d' where step: "ValidateProxy v nt now p d = (e, p', d')"
    and fc: "FailCount p' = FailCount p + 1" and idp: "ID p' = ID p"
    and ad: "proxyAddr p' = proxyAddr p"
    and del: "maxFailCount v \<le> FailCount p + 1 \<longrightarrow>
                rows d' = filter (\<lambda>r. ID (cols r) \<noteq> ID p) (rows d)"
    using ValidateProxy_fail_step [OF pf Cons.prems(3), of now d] by blast
  show ?case
  proof (cases "rest = []")
    case True
    then have "maxFailCount v \<le> FailCount p + 1" using Cons.prems(4) by simp
    then have "ID p \<notin> storedIDs d'" using del by (auto simp: storedIDs_def)
    then show ?thesis using True x step by simp
  next
    case False
    have "\<forall>(nt, now) \<in> set rest. probesFail v nt p'"
      using Cons.prems(2) ad by (auto simp: probesFail_def)
    moreover have "maxFailCount v \<le> FailCount p' + int (length rest)"
      using Cons.prems(4) fc by simp
    ultimately have "ID p' \<notin> storedIDs (snd (ValidateRepeatedly v rest p' d'))"
      using Cons.IH [OF False, of p' d'] Cons.prems(3) idp by simp
    then show ?thesis using x step idp by simp
  qed
qed

text \<open>
  Claim C1. When \<open>ValidateProxy\<close> fails on a stored row (no canary probe succeeded), the
  struct gets \<open>Available = false\<close>, \<open>FailCount\<close> one higher and \<open>LastCheck = now\<close>. If
  the new \<open>FailCount\<close> has reached \<open>maxFailCount\<close> the row is deleted from the store and
  nothing is saved: the store is the old one without that row. Otherwise the row of the
  store is the updated struct. With \<open>maxFailCount = 3\<close>, three failing validations in a
  row of a proxy whose \<open>FailCount\<close> is not negative leave the store without its row.
\<close>

theorem ValidateProxy_failure_evicts:
  assumes "probesFail v nt p" and "ID p \<noteq> 0" and "ID p \<in> storedIDs d"
  shows "(case ValidateProxy v nt now p d of
            (e, p', d') \<Rightarrow>
              e = None \<and> \<not> Available p' \<and> FailCount p' = FailCount p + 1 \<and> LastCheck p' = now \<and>
              (if maxFailCount v \<le> FailCount p'
               then rows d' = filter (\<lambda>r. ID (cols r) \<noteq> ID p) (rows d) \<and>
                    ID p \<notin> storedIDs d' \<and> db_First d' (ID p) = Inl ErrRecordNotFound
               else db_First d' (ID p) = Inr p' \<and>
                    rows d' = map (\<lambda>r. if ID (cols r) = ID p then r\<lparr>cols := p'\<rparr> else r) (rows d)))
         \<and> (maxFailCount v = 3 \<and> 0 \<le> FailCount p \<and> probesFail v nt2 p \<and> probesFail v nt3 p
              \<longrightarrow> ID p \<notin> storedIDs
                     (snd (ValidateRepeatedly v [(nt, now), (nt2, now2), (nt3, now3)] p d)))"
proof
  obtain e p' d' where step: "ValidateProxy v nt now p d = (e, p', d')"
    and fc: "FailCount p' = FailCount p + 1" and lc: "LastCheck p' = now"
    and del: "maxFailCount v \<le> FailCount p + 1 \<longrightarrow>
        e = None \<and> \<not> Available p' \<and>
        rows d' = filter (\<lambda>r. ID (cols r) \<noteq> ID p) (rows d) \<and> next_id d' = next_id d"
    and sav: "FailCount p + 1 < maxFailCount v \<longrightarrow> ID p \<in> storedIDs d \<longrightarrow>
        e = None \<and> \<not> Available p' \<and> db_First d' (ID p) = Inr p' \<and>
        rows d' = map (\<lambda>r. if ID (cols r) = ID p then r\<lparr>cols := p'\<rparr> else r) (rows d)"
    using ValidateProxy_fail_step [OF assms(1) assms(2), of now d] by blast
  show "case ValidateProxy v nt now p d of
            (e, p', d') \<Rightarrow>
              e = None \<and> \<not> Available p' \<and> FailCount p' = FailCount p + 1 \<and> LastCheck p' = now \<and>
              (if maxFailCount v \<le> FailCount p'
               then rows d' = filter (\<lambda>r. ID (cols r) \<noteq> ID p) (rows d) \<and>
                    ID p \<notin> storedIDs d' \<and> db_First d' (ID p) = Inl ErrRecordNotFound
               else db_First d' (ID p) = Inr p' \<and>
                    rows d' = map (\<lambda>r. if ID (cols r) = ID p then r\<lparr>cols := p'\<rparr> else r) (rows d))"
  proof (cases "maxFailCount v \<le> FailCount p + 1")
    case True
    then have r: "rows d' = filter (\<lambda>r. ID (cols r) \<noteq> ID p) (rows d)" using del by simp
    then have "find (\<lambda>r. ID (cols r) = ID p) (rows d') = None"
      by (simp add: find_None_iff)
    then show ?thesis using True step fc lc del r
      by (auto simp: storedIDs_def db_First_def)
  next
    case False
    then show ?thesis using step fc lc sav assms(3) by simp
  qed
next
  show "maxFailCount v = 3 \<and> 0 \<le> FailCount p \<and> probesFail v nt2 p \<and> probesFail v nt3 p
              \<longrightarrow> ID p \<notin> storedIDs
                     (snd (ValidateRepeatedly v [(nt, now), (nt2, now2), (nt3, now3)] p d))"
  proof
    assume h: "maxFailCount v = 3 \<and> 0 \<le> FailCount p \<and> probesFail v nt2 p \<and> probesFail v nt3 p"
    have "\<forall>(n, t) \<in> set [(nt, now), (nt2, now2), (nt3, now3)]. probesFail v n p"
      using assms(1) h by simp
    moreover have "maxFailCount v \<le> FailCount p + int (length [(nt, now), (nt2, now2), (nt3, now3)])"
      using h by simp
    ultimately show
      "ID p \<notin> storedIDs (snd (ValidateRepeatedly v [(nt, now), (nt2, now2), (nt3, now3)] p d))"
      using ValidateRepeatedly_evicts [of "[(nt, now), (nt2, now2), (nt3, now3)]" v p d] assms(2)
      by blast
  qed
qed

theorem ValidateProxy_failure_evicts_witness:
  "probesFail (NewProxyValidator 3) deadNet exProxy \<and> ID exProxy \<noteq> 0 \<and>
   ID exProxy \<in> storedIDs exStore \<and>
   (case ValidateProxy (NewProxyValidator 3) deadNet 777 exProxy exStore of
      (e, p', d') \<Rightarrow> e = None \<and> \<not> Available p' \<and> FailCount p' = 1 \<and> LastCheck p' = 777 \<and>
        db_First d' 1 = Inr p') \<and>
   ID exProxy \<notin> storedIDs
     (snd (ValidateRepeatedly (NewProxyValidator 3)
             [(deadNet, 777), (deadNet, 888), (deadNet, 999)] exProxy exStore)) \<and>
   probesFail (NewProxyValidator 1) deadNet exProxy \<and>
   (case ValidateProxy (NewProxyValidator 1) deadNet 777 exProxy exStore of
      (e, p', d') \<Rightarrow> e = None \<and> \<not> Available p' \<and> FailCount p' = 1 \<and> LastCheck p' = 777 \<and>
        rows d' = [] \<and> db_First d' 1 = Inl ErrRecordNotFound)"
proof -
  have pf: "probesFail (NewProxyValidator 3) deadNet exProxy"
    by (simp add: probesFail_def NewProxyValidator_def deadNet_def)
  have pf1: "probesFail (NewProxyValidator 1) deadNet exProxy"
    by (simp add: probesFail_def NewProxyValidator_def deadNet_def)
  have i0: "ID exProxy \<noteq> 0" by (simp add: exProxy_def)
  have st: "ID exProxy \<in> storedIDs exStore" by (simp add: storedIDs_def exStore_def)
  have mf: "maxFailCount (NewProxyValidator 3) = 3 \<and> 0 \<le> FailCount exProxy"
    by (simp add: NewProxyValidator_def exProxy_def)
  have less: "\<not> maxFailCount (NewProxyValidator 3) \<le> FailCount exProxy + 1"
    by (simp add: NewProxyValidator_def exProxy_def)
  have geq: "maxFailCount (NewProxyValidator 1) \<le> FailCount exProxy + 1"
    by (simp add: NewProxyValidator_def exProxy_def)
  have rs: "rows exStore = [\<lparr>cols = exProxy\<rparr>]" by (simp add: exStore_def)
  have a: "(case ValidateProxy (NewProxyValidator 3) deadNet 777 exProxy exStore of
      (e, p', d') \<Rightarrow> e = None \<and> \<not> Available p' \<and> FailCount p' = 1 \<and> LastCheck p' = 777 \<and>
        db_First d' 1 = Inr p') \<and>
     ID exProxy \<notin> storedIDs
     (snd (ValidateRepeatedly (NewProxyValidator 3)
             [(deadNet, 777), (deadNet, 888), (deadNet, 999)] exProxy exStore))"
    using ValidateProxy_failure_evicts [OF pf i0 st, of 777 deadNet deadNet 888 999] pf mf less
    by (auto simp: exProxy_def split: prod.splits if_splits)
  have b: "case ValidateProxy (NewProxyValidator 1) deadNet 777 exProxy exStore of
      (e, p', d') \<Rightarrow> e = None \<and> \<not> Available p' \<and> FailCount p' = 1 \<and> LastCheck p' = 777 \<and>
        rows d' = [] \<and> db_First d' 1 = Inl ErrRecordNotFound"
    using ValidateProxy_failure_evicts [OF pf1 i0 st, of 777 deadNet deadNet 888 999] geq rs
    by (auto simp: exProxy_def split: prod.splits if_splits)
  show ?thesis
    by (intro conjI) (rule pf i0 st conjunct1 [OF a] conjunct2 [OF a] pf1 b)+
qed

section \<open>Validation: success\<close>

lemma probeLoop_char:
  "probeLoop g us =
     ((\<exists>u \<in> set us. is200 (g u)), sum_list (map (\<lambda>u. snd (g u)) (attempted g us)))"
proof (induction us)
  case Nil
  show ?case by (simp add: attempted_def)
next
  case (Cons u us)
  obtain r t where gu: "g u = (r, t)" by (cases "g u")
  show ?case
  proof (cases "is200 (g u)")
    case True
    then show ?thesis using gu by (cases r) (auto simp: is200_def attempted_def)
  next
    case False
    then show ?thesis using gu Cons.IH
      by (cases r) (auto simp: is200_def attempted_def)
  qed
qed

lemma ValidateProxy_success_step:
  assumes "parse_ok nt (proxyAddr p)"
    and "fst (probeLoop (get nt (proxyAddr p)) (testURLs v))"
    and "ID p \<noteq> 0" and "ID p \<in> storedIDs d"
  shows "ValidateProxy v nt now p d =
     (None,
      p\<lparr>LastCheck := now, Speed := snd (probeLoop (get nt (proxyAddr p)) (testURLs v)),
        Available := True, FailCount := 0\<rparr>,
      d\<lparr>rows := map (\<lambda>r. if ID (cols r) = ID p
                 then r\<lparr>cols := p\<lparr>LastCheck := now,
                         Speed := snd (probeLoop (get nt (proxyAddr p)) (testURLs v)),
                         Available := True, FailCount := 0\<rparr>\<rparr> else r) (rows d)\<rparr>)"
  using assms
  by (cases "probeLoop (get nt (proxyAddr p)) (testURLs v)")
     (simp add: ValidateProxy_def db_Save_def storedIDs_def Let_def)

text \<open>
  Claim C4, as stated, fails: a canary that answers 204, a status of the 2xx class, does
  not make the validation succeed; and a success overwrites the stored speed (100 ms
  before, 750 ms measured, 750 ms stored) instead of blending it with the prior value.
\<close>

theorem ValidateProxy_2xx_blend_counterexample:
  "get net204 (proxyAddr exProxy) ''http://www.baidu.com'' = (Status 204, 120)
   \<and> ''http://www.baidu.com'' \<in> set (testURLs (NewProxyValidator 3))
   \<and> \<not> Available (fst (snd (ValidateProxy (NewProxyValidator 3) net204 777 exProxy exStore)))
   \<and> FailCount (fst (snd (ValidateProxy (NewProxyValidator 3) net204 777 exProxy exStore))) = 1
   \<and> Available (fst (snd (ValidateProxy (NewProxyValidator 3) liveNet 777
                             (exProxy\<lparr>Speed := 100\<rparr>) exStore)))
   \<and> Speed (fst (snd (ValidateProxy (NewProxyValidator 3) liveNet 777
                         (exProxy\<lparr>Speed := 100\<rparr>) exStore))) = 750"
  by (simp add: net204_def liveNet_def NewProxyValidator_def ValidateProxy_def exProxy_def
      exStore_def db_Save_def db_Delete_def Let_def proxyAddr_def)

text \<open>
  Claim C4, amended. \<open>ValidateProxy\<close> requests the test URLs in order and stops at the
  first response whose status is exactly 200; the validation succeeds if and only if some
  test URL answers 200. The elapsed time is the time of the requests made, up to and
  including the one that answered 200. On success of a stored row the struct gets
  \<open>Available = true\<close>, \<open>FailCount = 0\<close>, \<open>LastCheck = now\<close>, its \<open>Speed\<close> is set to the
  elapsed time (the prior value is overwritten), and the row is saved.
\<close>

theorem ValidateProxy_success:
  assumes "parse_ok nt (proxyAddr p)" and "ID p \<noteq> 0" and "ID p \<in> storedIDs d"
  shows "(fst (probeLoop (get nt (proxyAddr p)) (testURLs v))
            \<longleftrightarrow> (\<exists>u \<in> set (testURLs v). is200 (get nt (proxyAddr p) u)))
       \<and> snd (probeLoop (get nt (proxyAddr p)) (testURLs v))
            = sum_list (map (\<lambda>u. snd (get nt (proxyAddr p) u))
                         (attempted (get nt (proxyAddr p)) (testURLs v)))
       \<and> (Available (fst (snd (ValidateProxy v nt now p d)))
            \<longleftrightarrow> fst (probeLoop (get nt (proxyAddr p)) (testURLs v)))
       \<and> (fst (probeLoop (get nt (proxyAddr p)) (testURLs v)) \<longrightarrow>
            (case ValidateProxy v nt now p d of
               (e, p', d') \<Rightarrow>
                 e = None \<and> Available p' \<and> FailCount p' = 0 \<and> LastCheck p' = now \<and>
                 Speed p' = snd (probeLoop (get nt (proxyAddr p)) (testURLs v)) \<and>
                 db_First d' (ID p) = Inr p'))"
proof (intro conjI)
  show "fst (probeLoop (get nt (proxyAddr p)) (testURLs v))
            \<longleftrightarrow> (\<exists>u \<in> set (testURLs v). is200 (get nt (proxyAddr p) u))"
    by (simp add: probeLoop_char)
  show "snd (probeLoop (get nt (proxyAddr p)) (testURLs v))
            = sum_list (map (\<lambda>u. snd (get nt (proxyAddr p) u))
                         (attempted (get nt (proxyAddr p)) (testURLs v)))"
    by (simp add: probeLoop_char)
  show "Available (fst (snd (ValidateProxy v nt now p d)))
            \<longleftrightarrow> fst (probeLoop (get nt (proxyAddr p)) (testURLs v))"
  proof (cases "fst (probeLoop (get nt (proxyAddr p)) (testURLs v))")
    case True
    then show ?thesis
      using ValidateProxy_success_step [OF assms(1) True assms(2) assms(3)] by simp
  next
    case False
    then have "probesFail v nt p" using assms(1) by (simp add: probesFail_def)
    then show ?thesis using ValidateProxy_fail_step [of v nt p now d] assms(2,3) False
      by (cases "maxFailCount v \<le> FailCount p + 1") auto
  qed
  show "fst (probeLoop (get nt (proxyAddr p)) (testURLs v)) \<longrightarrow>
            (case ValidateProxy v nt now p d of
               (e, p', d') \<Rightarrow>
                 e = None \<and> Available p' \<and> FailCount p' = 0 \<and> LastCheck p' = now \<and>
                 Speed p' = snd (probeLoop (get nt (proxyAddr p)) (testURLs v)) \<and>
                 db_First d' (ID p) = Inr p')"
  proof
    assume ok: "fst (probeLoop (get nt (proxyAddr p)) (testURLs v))"
    define q where
      "q = p\<lparr>LastCheck := now, Speed := snd (probeLoop (get nt (proxyAddr p)) (testURLs v)),
             Available := True, FailCount := 0\<rparr>"
    have idq: "ID q = ID p" by (simp add: q_def)
    have "db_First (d\<lparr>rows := map (\<lambda>r. if ID (cols r) = ID q then r\<lparr>cols := q\<rparr> else r) (rows d)\<rparr>)
           (ID q) = Inr q"
      using db_First_replaced [of q d] assms(3) idq by simp
    then show "case ValidateProxy v nt now p d of
               (e, p', d') \<Rightarrow>
                 e = None \<and> Available p' \<and> FailCount p' = 0 \<and> LastCheck p' = now \<and>
                 Speed p' = snd (probeLoop (get nt (proxyAddr p)) (testURLs v)) \<and>
                 db_First d' (ID p) = Inr p'"
      using ValidateProxy_success_step [OF assms(1) ok assms(2) assms(3), of now] idq
      unfolding q_def by simp
  qed
qed

theorem ValidateProxy_success_witness:
  "parse_ok liveNet (proxyAddr exProxy) \<and> ID exProxy \<noteq> 0 \<and> ID exProxy \<in> storedIDs exStore
   \<and> fst (probeLoop (get liveNet (proxyAddr exProxy)) (testURLs (NewProxyValidator 3)))
   \<and> is200 (get liveNet (proxyAddr exProxy) ''https://store.steampowered.com'')
   \<and> attempted (get liveNet (proxyAddr exProxy)) (testURLs (NewProxyValidator 3))
       = [''http://www.baidu.com'', ''https://store.steampowered.com'']
   \<and> (case ValidateProxy (NewProxyValidator 3) liveNet 777 exProxy exStore of
         (e, p', d') \<Rightarrow>
           e = None \<and> Available p' \<and> FailCount p' = 0 \<and> LastCheck p' = 777 \<and> Speed p' = 750 \<and>
           db_First d' 1 = Inr p')"
proof -
  have po: "parse_ok liveNet (proxyAddr exProxy)" by (simp add: liveNet_def)
  have i0: "ID exProxy \<noteq> 0" by (simp add: exProxy_def)
  have st: "ID exProxy \<in> storedIDs exStore" by (simp add: storedIDs_def exStore_def)
  have pl: "probeLoop (get liveNet (proxyAddr exProxy)) (testURLs (NewProxyValidator 3))
              = (True, 750)"
    by (simp add: liveNet_def NewProxyValidator_def)
  have at: "attempted (get liveNet (proxyAddr exProxy)) (testURLs (NewProxyValidator 3))
       = [''http://www.baidu.com'', ''https://store.steampowered.com'']"
    by (simp add: attempted_def is200_def liveNet_def NewProxyValidator_def)
  have i2: "is200 (get liveNet (proxyAddr exProxy) ''https://store.steampowered.com'')"
    by (simp add: is200_def liveNet_def)
  show ?thesis
    using ValidateProxy_success [OF po i0 st, of "NewProxyValidator 3" 777] po i0 st pl at i2
    by (auto simp: exProxy_def split: prod.splits)
qed

section \<open>Optimising the pool\<close>

text \<open>
  The table has no column \<open>success_rate\<close>: the success rate of a proxy is computed by
  \<open>GetSuccessRate\<close> from the columns \<open>success\<close> and \<open>failure\<close> and is stored nowhere. So
  the three statements of the program that name the column are refused, whatever the store
  holds: the \<open>DELETE\<close> of \<open>OptimizePool\<close>, the \<open>SELECT\<close> of \<open>GetProxies\<close> and the
  \<open>UPDATE\<close> of \<open>UpdateProxyStatus\<close>.
\<close>

lemma OptimizePool_refused:
  "OptimizePool now d = (Some (ErrUnknownColumn ''success_rate''), d)"
  by (simp add: OptimizePool_def db_DeleteWhere_def checkColumns_def proxyColumns_def)

lemma GetProxies_refused:
  "GetProxies d proxyType limit = Inl (ErrUnknownColumn ''success_rate'')"
  by (simp add: GetProxies_def checkColumns_def proxyColumns_def)

lemma UpdateProxyStatus_refused:
  "UpdateProxyStatus now proxy available speed d =
     Inl (if ID proxy = 0 then ErrMissingWhereClause else ErrUnknownColumn ''success_rate'')"
  by (simp add: UpdateProxyStatus_def db_UpdatesWhere_def checkColumns_def proxyColumns_def)

text \<open>
  Claim C8. The code does not do what the claim says. The store holds a proxy with the
  score 10 and a proxy with the score 85, nine successes and one failure, whose score is
  at least 80 after a recomputation as well, and whose \<open>max_concurrent\<close> is 10.
  \<open>OptimizePool\<close> returns the error of its first statement, the \<open>DELETE\<close> that names the
  column \<open>success_rate\<close>, and leaves the store as it was: the first proxy is still stored,
  and the second still has \<open>max_concurrent = 10\<close>.
\<close>

theorem OptimizePool_unknown_column:
  "db_First exSeed 1 = Inr exLow \<and> Score exLow = 10
   \<and> db_First exSeed 2 = Inr exHigh \<and> Score exHigh = 85 \<and> Score (UpdateScore exHigh) \<ge> 80
   \<and> MaxConcurrent exHigh = 10
   \<and> ''success_rate'' \<notin> set proxyColumns
   \<and> OptimizePool 777 exSeed = (Some (ErrUnknownColumn ''success_rate''), exSeed)
   \<and> db_First (snd (OptimizePool 777 exSeed)) 1 = Inr exLow
   \<and> map_sum id MaxConcurrent (db_First (snd (OptimizePool 777 exSeed)) 2) = Inr 10"
  by (simp add: OptimizePool_def db_DeleteWhere_def checkColumns_def proxyColumns_def
      exSeed_def exLow_def exHigh_def exProxy_def db_First_def UpdateScore_def
      GetSuccessRate_def Let_def)

section \<open>Statistics of a proxy\<close>

lemma UpdateStats_panics_iff:
  "UpdateStats now success speed p = Inl e \<longleftrightarrow>
     e = PanicDivideByZero \<and> success \<and> Speed p \<noteq> 0 \<and> (word_of_int (UseCount p) :: 64 word) = 0"
  by (auto simp: UpdateStats_def Let_def)

text \<open>
  Claim C10. \<open>UpdateStats\<close> is not total: a success report for a proxy with a non-zero
  \<open>Speed\<close> and \<open>UseCount = 0\<close> divides by \<open>UseCount\<close>, and Go panics. Such a proxy is
  what a successful validation of a fresh row leaves: speed 750 ms, never used.
\<close>

theorem UpdateStats_divide_by_zero:
  "Speed exValidated = 750 \<and> UseCount exValidated = 0
   \<and> UpdateStats 888 True 50 exValidated = Inl PanicDivideByZero"
  by (simp add: exValidated_def UpdateStats_def ValidateProxy_def NewProxyValidator_def
      liveNet_def exProxy_def exStore_def db_Save_def Let_def proxyAddr_def)

section \<open>Ingestion: upsert by address\<close>

lemma key_updDescr [simp]:
  "IP (cols (updDescr p r)) = IP (cols r)" "Port (cols (updDescr p r)) = Port (cols r)"
  by (simp_all add: updDescr_def)

lemma key_fold_updDescr [simp]:
  "IP (cols (fold updDescr ps r)) = IP (cols r) \<and> Port (cols (fold updDescr ps r)) = Port (cols r)"
  by (induction ps arbitrary: r) simp_all

lemma IsProxyExists_map_updDescr [simp]:
  "IsProxyExists (d\<lparr>rows := map (updDescr p) (rows d)\<rparr>) ip port = IsProxyExists d ip port"
  by (simp add: IsProxyExists_def filter_map comp_def)

lemma updDescr_other:
  "\<not> IsProxyExists d (IP p) (Port p) \<Longrightarrow> r \<in> set (rows d) \<Longrightarrow> updDescr p r = r"
  by (auto simp: IsProxyExists_def updDescr_def filter_empty_conv)

lemma updDescr_absorb:
  "IP (cols r) = IP p \<Longrightarrow> Port (cols r) = Port p \<Longrightarrow>
   updDescr p (fold updDescr ps r) = updDescr p r"
proof (induction ps arbitrary: r)
  case Nil
  then show ?case by simp
next
  case (Cons q ps)
  have "updDescr p (fold updDescr ps (updDescr q r)) = updDescr p (updDescr q r)"
    using Cons.IH [of "updDescr q r"] Cons.prems by simp
  also have "\<dots> = updDescr p r"
    using Cons.prems by (simp add: updDescr_def)
  finally show ?case by simp
qed

lemma updDescr_idem: "updDescr p (updDescr p r) = updDescr p r"
  by (simp add: updDescr_def)

lemma created_fields:
  assumes "db_Create now p d = Inr (p', d')"
  shows "rows d' = rows d @ [\<lparr>cols = p'\<rparr>] \<and> candidateFields p' = candidateFields p"
  using assms
  by (auto simp: db_Create_def applyDefaults_def BeforeCreate_def candidateFields_def Let_def
      split: if_splits)

lemma batchStep_cases:
  assumes "batchStep now p d = Inr (p', d')"
  shows "(IsProxyExists d (IP p) (Port p) \<and> p' = p \<and> rows d' = map (updDescr p) (rows d)
            \<and> next_id d' = next_id d)
       \<or> (\<not> IsProxyExists d (IP p) (Port p) \<and> candidateFields p' = candidateFields p
            \<and> rows d' = rows d @ [\<lparr>cols = p'\<rparr>])"
  using assms created_fields [of now p d p' d']
  by (auto simp: batchStep_def split: if_splits)

lemma batchLoop_snoc:
  "batchLoop now (ps @ [p]) d =
     (case batchLoop now ps d of
        Inl e \<Rightarrow> Inl e
      | Inr (ps', d1) \<Rightarrow>
          (case batchStep now p d1 of
             Inl e \<Rightarrow> Inl e
           | Inr (p', d') \<Rightarrow> Inr (ps' @ [p'], d')))"
  by (induction ps arbitrary: d) (auto split: sum.splits prod.splits)

lemma IsProxyExists_iff:
  "IsProxyExists d ip port \<longleftrightarrow> (\<exists>r \<in> set (rows d). IP (cols r) = ip \<and> Port (cols r) = port)"
  by (auto simp: IsProxyExists_def filter_empty_conv)

lemma batchLoop_settled:
  assumes "batchLoop now ps d = Inr (ps', d')"
  shows "(\<forall>q \<in> set ps. IsProxyExists d' (IP q) (Port q))
       \<and> (\<forall>r \<in> set (rows d'). fold updDescr ps r = r)
       \<and> map candidateFields ps' = map candidateFields ps"
  using assms
proof (induction ps arbitrary: ps' d' rule: rev_induct)
  case Nil
  then show ?case by simp
next
  case (snoc p ps)
  obtain ps1 d1 p1 where l: "batchLoop now ps d = Inr (ps1, d1)"
    and s: "batchStep now p d1 = Inr (p1, d')" and e: "ps' = ps1 @ [p1]"
    using snoc.prems by (auto simp: batchLoop_snoc split: sum.splits prod.splits)
  have ex1: "\<forall>q \<in> set ps. IsProxyExists d1 (IP q) (Port q)"
    and fx1: "\<forall>r \<in> set (rows d1). fold updDescr ps r = r"
    and cf1: "map candidateFields ps1 = map candidateFields ps"
    using snoc.IH [OF l] by auto
  consider (upd) "IsProxyExists d1 (IP p) (Port p)" "p1 = p"
      "rows d' = map (updDescr p) (rows d1)"
    | (new) "\<not> IsProxyExists d1 (IP p) (Port p)" "candidateFields p1 = candidateFields p"
      "rows d' = rows d1 @ [\<lparr>cols = p1\<rparr>]"
    using batchStep_cases [OF s] by blast
  then show ?case
  proof cases
    case upd
    have a: "\<forall>q \<in> set (ps @ [p]). IsProxyExists d' (IP q) (Port q)"
      using ex1 upd by (auto simp: IsProxyExists_iff)
    have b: "\<forall>r \<in> set (rows d'). fold updDescr (ps @ [p]) r = r"
    proof
      fix r' assume "r' \<in> set (rows d')"
      then obtain r where r: "r \<in> set (rows d1)" and r': "r' = updDescr p r"
        using upd(3) by auto
      show "fold updDescr (ps @ [p]) r' = r'"
      proof (cases "IP (cols r) = IP p \<and> Port (cols r) = Port p")
        case True
        then have "updDescr p (fold updDescr ps r') = updDescr p r'"
          using updDescr_absorb [of r' p ps] r' by simp
        then show ?thesis by (simp add: r' updDescr_idem)
      next
        case False
        then have "r' = r" by (auto simp: r' updDescr_def)
        moreover have "updDescr p r = r" using False by (auto simp: updDescr_def)
        ultimately show ?thesis using fx1 r by simp
      qed
    qed
    show ?thesis using a b cf1 e upd(2) by simp
  next
    case new
    have kp: "IP p1 = IP p" "Port p1 = Port p" "Type p1 = Type p" "Protocol p1 = Protocol p"
      "Region p1 = Region p" "Source p1 = Source p" "Anonymous p1 = Anonymous p"
      using new(2) by (simp_all add: candidateFields_def)
    have a: "\<forall>q \<in> set (ps @ [p]). IsProxyExists d' (IP q) (Port q)"
      using ex1 new(3) kp by (auto simp: IsProxyExists_iff)
    have nomatch: "\<forall>q \<in> set ps. \<not> (IP q = IP p \<and> Port q = Port p)"
      using ex1 new(1) by auto
    have foldnew: "\<And>x. IP (cols x) = IP p \<Longrightarrow> Port (cols x) = Port p \<Longrightarrow> fold updDescr ps x = x"
      using nomatch
    proof (induction ps)
      case Nil
      then show ?case by simp
    next
      case (Cons q qs)
      then have "updDescr q x = x" by (auto simp: updDescr_def)
      then show ?case using Cons by simp
    qed
    have b: "\<forall>r \<in> set (rows d'). fold updDescr (ps @ [p]) r = r"
    proof
      fix r' assume "r' \<in> set (rows d')"
      then consider "r' \<in> set (rows d1)" | "r' = \<lparr>cols = p1\<rparr>"
        using new(3) by auto
      then show "fold updDescr (ps @ [p]) r' = r'"
      proof cases
        case 1
        then show ?thesis using fx1 updDescr_other [OF new(1) 1] by simp
      next
        case 2
        then have "fold updDescr ps r' = r'" using foldnew [of r'] kp by simp
        moreover have "updDescr p r' = r'" using 2 kp by (simp add: updDescr_def)
        ultimately show ?thesis by simp
      qed
    qed
    show ?thesis using a b cf1 e new(2) by simp
  qed
qed

lemma updDescr_cong:
  "candidateFields q = candidateFields p \<Longrightarrow> updDescr q = updDescr p"
  by (auto simp: candidateFields_def updDescr_def fun_eq_iff)

lemma fold_updDescr_cong:
  "map candidateFields qs = map candidateFields ps \<Longrightarrow> fold updDescr qs = fold updDescr ps"
proof (induction qs arbitrary: ps)
  case Nil
  then show ?case by simp
next
  case (Cons q qs)
  then obtain p ps0 where ps: "ps = p # ps0" by (cases ps) auto
  then show ?case using Cons updDescr_cong [of q p] by (auto simp: fun_eq_iff)
qed

lemma batchLoop_all_exist:
  assumes "\<forall>q \<in> set qs. IsProxyExists d (IP q) (Port q)"
  shows "batchLoop now qs d = Inr (qs, d\<lparr>rows := map (fold updDescr qs) (rows d)\<rparr>)"
  using assms
proof (induction qs arbitrary: d)
  case Nil
  then show ?case by simp
next
  case (Cons q qs)
  define d1 where "d1 = d\<lparr>rows := map (updDescr q) (rows d)\<rparr>"
  have s: "batchStep now q d = Inr (q, d1)"
    using Cons.prems by (simp add: batchStep_def d1_def)
  have "\<forall>x \<in> set qs. IsProxyExists d1 (IP x) (Port x)"
    using Cons.prems by (simp add: d1_def)
  then have "batchLoop now qs d1 = Inr (qs, d1\<lparr>rows := map (fold updDescr qs) (rows d1)\<rparr>)"
    using Cons.IH by blast
  then show ?case using s by (simp add: d1_def comp_def)
qed

lemma batchLoop_old_rows:
  assumes "batchLoop now ps d = Inr (ps', d')"
  shows "\<exists>new. rows d' = map (fold updDescr ps) (rows d) @ new"
  using assms
proof (induction ps arbitrary: d ps' d')
  case Nil
  then show ?case by simp
next
  case (Cons p ps)
  obtain p1 d1 ps1 where s: "batchStep now p d = Inr (p1, d1)"
    and l: "batchLoop now ps d1 = Inr (ps1, d')"
    using Cons.prems by (auto split: sum.splits prod.splits)
  obtain new where n: "rows d' = map (fold updDescr ps) (rows d1) @ new"
    using Cons.IH [OF l] by blast
  from batchStep_cases [OF s] show ?case
  proof (elim disjE conjE)
    assume "rows d1 = map (updDescr p) (rows d)"
    then show ?thesis using n by (simp add: comp_def)
  next
    assume ne: "\<not> IsProxyExists d (IP p) (Port p)"
      and r: "rows d1 = rows d @ [\<lparr>cols = p1\<rparr>]"
    have "map (fold updDescr ps) (rows d) = map (fold updDescr (p # ps)) (rows d)"
      by (rule map_cong) (simp_all add: updDescr_other [OF ne])
    then show ?thesis using n r by simp
  qed
qed

lemma fold_updDescr_health:
  "cols (fold updDescr ps r)
     = (cols r)\<lparr>Type := Type (cols (fold updDescr ps r)),
                Protocol := Protocol (cols (fold updDescr ps r)),
                Region := Region (cols (fold updDescr ps r)),
                Source := Source (cols (fold updDescr ps r)),
                Anonymous := Anonymous (cols (fold updDescr ps r))\<rparr>"
proof (induction ps arbitrary: r)
  case Nil
  then show ?case by simp
next
  case (Cons p ps)
  show ?case using Cons [of "updDescr p r"] by (auto simp: updDescr_def)
qed

lemma fold_updDescr_last:
  "fold updDescr ps r =
     (case lastWithKey ps (IP (cols r), Port (cols r)) of None \<Rightarrow> r | Some p \<Rightarrow> updDescr p r)"
proof (induction ps arbitrary: r rule: rev_induct)
  case Nil
  then show ?case by (simp add: lastWithKey_def)
next
  case (snoc p ps)
  show ?case
  proof (cases "IP p = IP (cols r) \<and> Port p = Port (cols r)")
    case True
    then show ?thesis using updDescr_absorb [of r p ps]
      by (simp add: lastWithKey_def)
  next
    case False
    then have "updDescr p (fold updDescr ps r) = fold updDescr ps r"
      by (auto simp: updDescr_def)
    then show ?thesis using False snoc.IH [of r] by (auto simp: lastWithKey_def)
  qed
qed

lemma batchStep_count:
  assumes "batchStep now p d = Inr (p', d')"
  shows "length (filter (\<lambda>r. IP (cols r) = ip \<and> Port (cols r) = port) (rows d'))
       \<le> max 1 (length (filter (\<lambda>r. IP (cols r) = ip \<and> Port (cols r) = port) (rows d)))"
  using batchStep_cases [OF assms]
proof (elim disjE conjE)
  assume "rows d' = map (updDescr p) (rows d)"
  then show ?thesis by (simp add: filter_map comp_def)
next
  assume ne: "\<not> IsProxyExists d (IP p) (Port p)"
    and cf: "candidateFields p' = candidateFields p"
    and r: "rows d' = rows d @ [\<lparr>cols = p'\<rparr>]"
  have "IP p' = IP p" "Port p' = Port p" using cf by (simp_all add: candidateFields_def)
  then show ?thesis using ne r by (auto simp: IsProxyExists_def)
qed

lemma batchLoop_count:
  assumes "batchLoop now ps d = Inr (ps', d')"
  shows "length (filter (\<lambda>r. IP (cols r) = ip \<and> Port (cols r) = port) (rows d'))
       \<le> max 1 (length (filter (\<lambda>r. IP (cols r) = ip \<and> Port (cols r) = port) (rows d)))"
  using assms
proof (induction ps arbitrary: d ps' d')
  case Nil
  then show ?case by simp
next
  case (Cons p ps)
  obtain p1 d1 ps1 where s: "batchStep now p d = Inr (p1, d1)"
    and l: "batchLoop now ps d1 = Inr (ps1, d')"
    using Cons.prems by (auto split: sum.splits prod.splits)
  show ?case using Cons.IH [OF l] batchStep_count [OF s, of ip port] by simp
qed

lemma BatchCreate_is_loop:
  "BatchCreateWithDuplicateCheck now ps d = batchLoop now ps d"
  by (cases ps) (simp_all add: BatchCreateWithDuplicateCheck_def)

lemma batchLoop_distinct:
  assumes "batchLoop now ps d = Inr (ps', d')"
    and "distinct (map (\<lambda>r. (IP (cols r), Port (cols r))) (rows d))"
  shows "distinct (map (\<lambda>r. (IP (cols r), Port (cols r))) (rows d'))"
  using assms
proof (induction ps arbitrary: d ps' d')
  case Nil
  then show ?case by simp
next
  case (Cons p ps)
  obtain p1 d1 ps1 where s: "batchStep now p d = Inr (p1, d1)"
    and l: "batchLoop now ps d1 = Inr (ps1, d')"
    using Cons.prems by (auto split: sum.splits prod.splits)
  have "distinct (map (\<lambda>r. (IP (cols r), Port (cols r))) (rows d1))"
    using batchStep_cases [OF s]
  proof (elim disjE conjE)
    assume "rows d1 = map (updDescr p) (rows d)"
    then show ?thesis using Cons.prems(2) by (simp add: comp_def)
  next
    assume ne: "\<not> IsProxyExists d (IP p) (Port p)"
      and cf: "candidateFields p1 = candidateFields p"
      and r: "rows d1 = rows d @ [\<lparr>cols = p1\<rparr>]"
    have "IP p1 = IP p" "Port p1 = Port p" using cf by (simp_all add: candidateFields_def)
    then show ?thesis using ne r Cons.prems(2) by (auto simp: IsProxyExists_iff)
  qed
  then show ?case using Cons.IH [OF l] by simp
qed

text \<open>
  Claim C5. Let a run of \<open>BatchCreateWithDuplicateCheck\<close> on a batch succeed (a run that
  fails is rolled back and leaves the store as it was). Then
  \<^item> a second run with the same rows, at any later time, leaves the store as the first run
    left it;
  \<^item> no address \<open>(ip, port)\<close> has more rows than before, unless it had none and now has
    one; a store without duplicate addresses stays so;
  \<^item> every row that was in the store is still there, at its place, with every column
    other than \<open>type\<close>, \<open>protocol\<close>, \<open>region\<close>, \<open>source\<close>, \<open>anonymous\<close> unchanged
    (so \<open>success\<close>, \<open>failure\<close>, \<open>fail_count\<close>, \<open>speed\<close>, \<open>score\<close> are unchanged); these
    five columns are those of the last struct of the batch with the row's address, and
    the row is unchanged if the batch has no such struct.
\<close>

theorem BatchCreateWithDuplicateCheck_upsert:
  assumes "BatchCreateWithDuplicateCheck now ps d = Inr (ps', d')"
  shows "(\<forall>qs. map candidateFields qs = map candidateFields ps
            \<longrightarrow> BatchCreateWithDuplicateCheck now2 qs d' = Inr (qs, d'))
       \<and> (\<forall>ip port. length (filter (\<lambda>r. IP (cols r) = ip \<and> Port (cols r) = port) (rows d'))
              \<le> max 1 (length (filter (\<lambda>r. IP (cols r) = ip \<and> Port (cols r) = port) (rows d))))
       \<and> (distinct (map (\<lambda>r. (IP (cols r), Port (cols r))) (rows d))
              \<longrightarrow> distinct (map (\<lambda>r. (IP (cols r), Port (cols r))) (rows d')))
       \<and> length (rows d) \<le> length (rows d')
       \<and> (\<forall>i < length (rows d).
            cols (rows d' ! i)
              = (cols (rows d ! i))\<lparr>Type := Type (cols (rows d' ! i)),
                                     Protocol := Protocol (cols (rows d' ! i)),
                                     Region := Region (cols (rows d' ! i)),
                                     Source := Source (cols (rows d' ! i)),
                                     Anonymous := Anonymous (cols (rows d' ! i))\<rparr> \<and>
            (case lastWithKey ps (IP (cols (rows d ! i)), Port (cols (rows d ! i))) of
               None \<Rightarrow> rows d' ! i = rows d ! i
             | Some p \<Rightarrow>
                 Type (cols (rows d' ! i)) = Type p \<and>
                 Protocol (cols (rows d' ! i)) = Protocol p \<and>
                 Region (cols (rows d' ! i)) = Region p \<and>
                 Source (cols (rows d' ! i)) = Source p \<and>
                 Anonymous (cols (rows d' ! i)) = Anonymous p))"
proof -
  have l: "batchLoop now ps d = Inr (ps', d')"
    using assms by (simp add: BatchCreate_is_loop)
  have ex: "\<forall>q \<in> set ps. IsProxyExists d' (IP q) (Port q)"
    and fx: "\<forall>r \<in> set (rows d'). fold updDescr ps r = r"
    using batchLoop_settled [OF l] by auto
  have idem: "\<forall>qs. map candidateFields qs = map candidateFields ps
            \<longrightarrow> BatchCreateWithDuplicateCheck now2 qs d' = Inr (qs, d')"
  proof (intro allI impI)
    fix qs assume m: "map candidateFields qs = map candidateFields ps"
    have "\<forall>q \<in> set qs. IsProxyExists d' (IP q) (Port q)"
    proof
      fix q assume "q \<in> set qs"
      then have "candidateFields q \<in> set (map candidateFields ps)"
        using m by (metis imageI set_map)
      then obtain p where "p \<in> set ps" "candidateFields p = candidateFields q" by auto
      then show "IsProxyExists d' (IP q) (Port q)"
        using ex by (auto simp: candidateFields_def)
    qed
    then have "batchLoop now2 qs d' = Inr (qs, d'\<lparr>rows := map (fold updDescr qs) (rows d')\<rparr>)"
      by (rule batchLoop_all_exist)
    moreover have "map (fold updDescr qs) (rows d') = rows d'"
      using fx fold_updDescr_cong [OF m] by (simp add: map_idI)
    ultimately show "BatchCreateWithDuplicateCheck now2 qs d' = Inr (qs, d')"
      by (simp add: BatchCreate_is_loop)
  qed
  have cnt: "\<forall>ip port. length (filter (\<lambda>r. IP (cols r) = ip \<and> Port (cols r) = port) (rows d'))
              \<le> max 1 (length (filter (\<lambda>r. IP (cols r) = ip \<and> Port (cols r) = port) (rows d)))"
    using batchLoop_count [OF l] by blast
  have dis: "distinct (map (\<lambda>r. (IP (cols r), Port (cols r))) (rows d))
              \<longrightarrow> distinct (map (\<lambda>r. (IP (cols r), Port (cols r))) (rows d'))"
    using batchLoop_distinct [OF l] by blast
  obtain new where new: "rows d' = map (fold updDescr ps) (rows d) @ new"
    using batchLoop_old_rows [OF l] by blast
  have len: "length (rows d) \<le> length (rows d')" using new by simp
  have old: "\<forall>i < length (rows d).
            cols (rows d' ! i)
              = (cols (rows d ! i))\<lparr>Type := Type (cols (rows d' ! i)),
                                     Protocol := Protocol (cols (rows d' ! i)),
                                     Region := Region (cols (rows d' ! i)),
                                     Source := Source (cols (rows d' ! i)),
                                     Anonymous := Anonymous (cols (rows d' ! i))\<rparr> \<and>
            (case lastWithKey ps (IP (cols (rows d ! i)), Port (cols (rows d ! i))) of
               None \<Rightarrow> rows d' ! i = rows d ! i
             | Some p \<Rightarrow>
                 Type (cols (rows d' ! i)) = Type p \<and>
                 Protocol (cols (rows d' ! i)) = Protocol p \<and>
                 Region (cols (rows d' ! i)) = Region p \<and>
                 Source (cols (rows d' ! i)) = Source p \<and>
                 Anonymous (cols (rows d' ! i)) = Anonymous p)"
  proof (intro allI impI)
    fix i assume i: "i < length (rows d)"
    define r where "r = rows d ! i"
    have ri: "rows d' ! i = fold updDescr ps r"
      using new i by (simp add: nth_append r_def)
    have h: "cols (fold updDescr ps r)
         = (cols r)\<lparr>Type := Type (cols (fold updDescr ps r)),
                    Protocol := Protocol (cols (fold updDescr ps r)),
                    Region := Region (cols (fold updDescr ps r)),
                    Source := Source (cols (fold updDescr ps r)),
                    Anonymous := Anonymous (cols (fold updDescr ps r))\<rparr>"
      by (rule fold_updDescr_health)
    have lk: "case lastWithKey ps (IP (cols r), Port (cols r)) of
               None \<Rightarrow> fold updDescr ps r = r
             | Some p \<Rightarrow>
                 Type (cols (fold updDescr ps r)) = Type p \<and>
                 Protocol (cols (fold updDescr ps r)) = Protocol p \<and>
                 Region (cols (fold updDescr ps r)) = Region p \<and>
                 Source (cols (fold updDescr ps r)) = Source p \<and>
                 Anonymous (cols (fold updDescr ps r)) = Anonymous p"
    proof (cases "lastWithKey ps (IP (cols r), Port (cols r))")
      case None
      then show ?thesis using fold_updDescr_last [of ps r] by simp
    next
      case (Some p)
      then have "IP p = IP (cols r) \<and> Port p = Port (cols r)"
        by (auto simp: lastWithKey_def dest: find_Some_iff [THEN iffD1])
      then show ?thesis using Some fold_updDescr_last [of ps r] by (simp add: updDescr_def)
    qed
    show "cols (rows d' ! i)
              = (cols (rows d ! i))\<lparr>Type := Type (cols (rows d' ! i)),
                                     Protocol := Protocol (cols (rows d' ! i)),
                                     Region := Region (cols (rows d' ! i)),
                                     Source := Source (cols (rows d' ! i)),
                                     Anonymous := Anonymous (cols (rows d' ! i))\<rparr> \<and>
            (case lastWithKey ps (IP (cols (rows d ! i)), Port (cols (rows d ! i))) of
               None \<Rightarrow> rows d' ! i = rows d ! i
             | Some p \<Rightarrow>
                 Type (cols (rows d' ! i)) = Type p \<and>
                 Protocol (cols (rows d' ! i)) = Protocol p \<and>
                 Region (cols (rows d' ! i)) = Region p \<and>
                 Source (cols (rows d' ! i)) = Source p \<and>
                 Anonymous (cols (rows d' ! i)) = Anonymous p)"
      unfolding ri r_def [symmetric] using h lk by blast
  qed
  show ?thesis using idem cnt dis len old by blast
qed

theorem BatchCreateWithDuplicateCheck_upsert_witness:
  "\<exists>ps' d'. BatchCreateWithDuplicateCheck 777 exBatch exUsedStore = Inr (ps', d')
     \<and> BatchCreateWithDuplicateCheck 888 exBatch d' = Inr (exBatch, d')
     \<and> distinct (map (\<lambda>r. (IP (cols r), Port (cols r))) (rows exUsedStore))
     \<and> distinct (map (\<lambda>r. (IP (cols r), Port (cols r))) (rows d'))
     \<and> length (rows d') = 2
     \<and> Source (cols (rows d' ! 0)) = ''wandou_paid''
     \<and> Success (cols (rows d' ! 0)) = 7 \<and> Failure (cols (rows d' ! 0)) = 2
     \<and> FailCount (cols (rows d' ! 0)) = 1 \<and> Speed (cols (rows d' ! 0)) = 320
     \<and> Score (cols (rows d' ! 0)) = 71"
proof -
  obtain ps' d' where r: "BatchCreateWithDuplicateCheck 777 exBatch exUsedStore = Inr (ps', d')"
    and n: "length (rows d') = 2"
    by (simp add: BatchCreateWithDuplicateCheck_def exBatch_def exUsedStore_def batchStep_def
      IsProxyExists_def exUsed_def exProxy_def kuaidailiCandidate_def db_Create_def
      applyDefaults_def BeforeCreate_def updDescr_def ProxyTypeLong_def Let_def)
  have lk: "lastWithKey exBatch (IP exUsed, Port exUsed)
              = Some ((kuaidailiCandidate (''1.2.3.4'', 8080))\<lparr>Source := ''wandou_paid''\<rparr>)"
    by (simp add: lastWithKey_def exBatch_def exUsed_def exProxy_def kuaidailiCandidate_def)
  have u: "cols (rows exUsedStore ! 0) = exUsed" "0 < length (rows exUsedStore)"
    by (simp_all add: exUsedStore_def)
  have d0: "distinct (map (\<lambda>r. (IP (cols r), Port (cols r))) (rows exUsedStore))"
    by (simp add: exUsedStore_def)
  note t = BatchCreateWithDuplicateCheck_upsert [OF r, of 888]
  have idem: "BatchCreateWithDuplicateCheck 888 exBatch d' = Inr (exBatch, d')"
    using t by blast
  have d1: "distinct (map (\<lambda>r. (IP (cols r), Port (cols r))) (rows d'))"
    using t d0 by blast
  have old: "cols (rows d' ! 0)
              = exUsed\<lparr>Type := Type (cols (rows d' ! 0)),
                       Protocol := Protocol (cols (rows d' ! 0)),
                       Region := Region (cols (rows d' ! 0)),
                       Source := Source (cols (rows d' ! 0)),
                       Anonymous := Anonymous (cols (rows d' ! 0))\<rparr>"
     and src: "Source (cols (rows d' ! 0)) = ''wandou_paid''"
    using t u lk by (auto simp: kuaidailiCandidate_def)
  have "Success (cols (rows d' ! 0)) = 7 \<and> Failure (cols (rows d' ! 0)) = 2
     \<and> FailCount (cols (rows d' ! 0)) = 1 \<and> Speed (cols (rows d' ! 0)) = 320
     \<and> Score (cols (rows d' ! 0)) = 71"
    using arg_cong [OF old, of Success] arg_cong [OF old, of Failure]
      arg_cong [OF old, of FailCount] arg_cong [OF old, of Speed] arg_cong [OF old, of Score]
    by (simp add: exUsed_def exProxy_def)
  then show ?thesis using r idem n src d0 d1 by blast
qed

section \<open>Ingestion: what reaches the store\<close>

text \<open>
  Claim C7. The code inserts raw candidates: \<open>FetchProxies\<close> of a source saves the
  candidates of the provider's answer with \<open>SaveProxies\<close> before anything validates them.
  With the answer \<open>1.2.3.4:8080\<close> and an empty store the row is stored, and \<open>addProxy\<close>
  then finds the address stored and skips the candidate without a validation, on a
  network on which no probe succeeds. The last part: \<open>addProxy\<close> on a candidate that was
  not stored leaves it stored although its validation failed, since \<open>ValidateProxy\<close> saves
  the struct.
\<close>

theorem FetchProxies_inserts_unvalidated:
  "KuaidailiSource_FetchProxies 777 (Inr [(''1.2.3.4'', 8080)]) emptyStore
     = (Inr [exFetched], \<lparr>rows = [\<lparr>cols = exFetched\<rparr>], next_id = 2\<rparr>)
   \<and> addProxy 3 deadNet 778 exFetched \<lparr>rows = [\<lparr>cols = exFetched\<rparr>], next_id = 2\<rparr>
     = (None, exFetched, \<lparr>rows = [\<lparr>cols = exFetched\<rparr>], next_id = 2\<rparr>)
   \<and> IsProxyExists (snd (snd (addProxy 3 deadNet 777 (kuaidailiCandidate (''1.2.3.4'', 8080)) emptyStore)))
        ''1.2.3.4'' 8080"
  by (simp add: KuaidailiSource_FetchProxies_def SaveProxies_def BatchCreateWithDuplicateCheck_def
      batchStep_def IsProxyExists_def emptyStore_def exFetched_def kuaidailiCandidate_def
      db_Create_def applyDefaults_def BeforeCreate_def addProxy_def ValidateProxy_def
      NewProxyValidator_def deadNet_def db_Save_def db_Delete_def proxyAddr_def
      ProxyTypeLong_def Let_def)

section \<open>Scheduler: qualification\<close>

text \<open>
  What \<open>isProxyQualified\<close> decides: the type of the task if it is set, no cooldown in
  the future, fewer than three runtime failures. A cooldown entry that has run out is
  deleted.
\<close>

lemma isProxyQualified_iff:
  "fst (isProxyQualified now p task s) \<longleftrightarrow>
     (ProxyType task = [] \<or> Type p = ProxyType task)
     \<and> (case cooldown s (ID p) of None \<Rightarrow> True | Some t \<Rightarrow> t \<le> now)
     \<and> getInt (failCount s) (ID p) < 3"
  by (auto simp: isProxyQualified_def Let_def split: option.splits)

lemma isProxyQualified_drops_stale:
  "cooldown s (ID p) = Some t \<Longrightarrow> t \<le> now \<Longrightarrow>
   ProxyType task = [] \<or> Type p = ProxyType task \<Longrightarrow>
   cooldown (snd (isProxyQualified now p task s)) (ID p) = None"
  by (auto simp: isProxyQualified_def Let_def)

text \<open>
  The strategies that collect their candidates through \<open>isProxyQualified\<close> respect the
  cooldown: given at least one proxy, every one of them in cooldown, each strategy other
  than the site-adaptive one with a domain returns \<open>ErrNoQualifiedProxy\<close> and leaves the
  runtime state as it was, whoever holds the mutex.
\<close>

lemma isProxyQualified_cooling:
  assumes "cooldown s (ID p) = Some t" and "now < t"
  shows "isProxyQualified now p task s = (False, s)"
  using assms by (simp add: isProxyQualified_def)

lemma qualifiedCandidates_cooling:
  assumes "\<forall>p \<in> set proxies. \<exists>t. cooldown s (ID p) = Some t \<and> now < t"
  shows "qualifiedCandidates now task proxies s = ([], s)"
  using assms
proof (induction proxies)
  case Nil
  then show ?case by simp
next
  case (Cons p ps)
  then obtain t where "cooldown s (ID p) = Some t" "now < t" by auto
  then have "isProxyQualified now p task s = (False, s)"
    by (rule isProxyQualified_cooling)
  then show ?case using Cons by simp
qed

lemma weightedCandidates_cooling:
  assumes "\<forall>p \<in> set proxies. \<exists>t. cooldown s (ID p) = Some t \<and> now < t"
  shows "weightedCandidates now task proxies s = ([], s)"
  using assms
proof (induction proxies)
  case Nil
  then show ?case by simp
next
  case (Cons p ps)
  then obtain t where "cooldown s (ID p) = Some t" "now < t" by auto
  then have "isProxyQualified now p task s = (False, s)"
    by (rule isProxyQualified_cooling)
  then show ?case using Cons by simp
qed

lemma strategies_all_cooling:
  assumes "ps \<noteq> []"
    and "\<forall>p \<in> set ps. \<exists>t. cooldown s (ID p) = Some t \<and> now < t"
  shows "weightedSchedule now g ps task s = Some (Inl ErrNoQualifiedProxy, s)"
    and "roundRobinSchedule now ps task s = Some (Inl ErrNoQualifiedProxy, s)"
    and "leastUsedSchedule now ps task s = Some (Inl ErrNoQualifiedProxy, s)"
    and "failoverSchedule now ps task s = Some (Inl ErrNoQualifiedProxy, s)"
    and "defaultSchedule now g ps task s = Some (Inl ErrNoQualifiedProxy, s)"
    and "TaskDomain task = [] \<Longrightarrow>
           siteAdaptiveSchedule now g ps task s = Some (Inl ErrNoQualifiedProxy, s)"
proof -
  have q: "qualifiedCandidates now task ps s = ([], s)"
    using assms(2) by (rule qualifiedCandidates_cooling)
  have w: "weightedCandidates now task ps s = ([], s)"
    using assms(2) by (rule weightedCandidates_cooling)
  show "weightedSchedule now g ps task s = Some (Inl ErrNoQualifiedProxy, s)"
    using assms(1) w by (simp add: weightedSchedule_def weightedChoose_def)
  show "roundRobinSchedule now ps task s = Some (Inl ErrNoQualifiedProxy, s)"
    using assms(1) q by (simp add: roundRobinSchedule_def)
  show "leastUsedSchedule now ps task s = Some (Inl ErrNoQualifiedProxy, s)"
    using assms(1) q by (simp add: leastUsedSchedule_def)
  show "failoverSchedule now ps task s = Some (Inl ErrNoQualifiedProxy, s)"
    using assms(1) q by (simp add: failoverSchedule_def)
  show 5: "defaultSchedule now g ps task s = Some (Inl ErrNoQualifiedProxy, s)"
    using assms(1) q by (simp add: defaultSchedule_def)
  show "TaskDomain task = [] \<Longrightarrow>
           siteAdaptiveSchedule now g ps task s = Some (Inl ErrNoQualifiedProxy, s)"
    using 5 by (simp add: siteAdaptiveSchedule_def)
qed

text \<open>
  \<open>ScheduleProxy\<close> itself does not reach a strategy: the query of \<open>GetProxies\<close> is
  refused, and \<open>ScheduleProxy\<close> returns that error and releases the read lock.
\<close>

lemma ScheduleProxy_refused:
  assumes "\<not> mu_writer s"
  shows "ScheduleProxy now g task d s = Some (Inl (ErrUnknownColumn ''success_rate''), s)"
  using assms
  by (simp add: ScheduleProxy_def GetProxies_def checkColumns_def proxyColumns_def
      RLock_def RUnlock_def)

text \<open>
  Claim C2. The code does not do what the claim says. \<open>isProxyQualified\<close> reads the type
  of the task, the cooldown entry and the runtime failure count, and nothing else: for
  a task that requires an anonymous proxy and a minimal speed it accepts an available
  proxy of the store that is not anonymous, and the round-robin strategy returns that
  proxy.
\<close>

theorem isProxyQualified_ignores_task:
  "RequireAnon exAnonTask \<and> MinSpeed exAnonTask = 100 \<and> \<not> Anonymous exUsed \<and> Available exUsed
   \<and> db_First exUsedStore 1 = Inr exUsed
   \<and> isProxyQualified 1000 exUsed exAnonTask NewProxyScheduler = (True, NewProxyScheduler)
   \<and> map_option fst (roundRobinSchedule 1000 [exUsed] exAnonTask NewProxyScheduler)
       = Some (Inr exUsed)"
  by (simp add: exAnonTask_def exUsed_def exUsedStore_def exProxy_def
      isProxyQualified_def NewProxyScheduler_def getInt_def roundRobinSchedule_def
      selectProxy_def updateProxyStats_def Lock_def Unlock_def sortSlice_def db_First_def
      Let_def)

text \<open>
  How the runtime state \<open>exCooling\<close> and the store \<open>exRecoveredStore\<close> come about:
  three failures of proxy 1 are reported at time 777, which puts the proxy in cooldown,
  and then a validation of the row succeeds at time 900.
\<close>

lemma exCooling_reached:
  "(case ReportProxyStatus 777 1 False 0 exStore NewProxyScheduler of
      None \<Rightarrow> None
    | Some (s1, d1) \<Rightarrow>
        (case ReportProxyStatus 777 1 False 0 d1 s1 of
           None \<Rightarrow> None
         | Some (s2, d2) \<Rightarrow>
             (case ReportProxyStatus 777 1 False 0 d2 s2 of
                None \<Rightarrow> None
              | Some (s3, d3) \<Rightarrow>
                  (case db_First d3 1 of
                     Inl e \<Rightarrow> None
                   | Inr p \<Rightarrow> Some (s3, snd (snd (ValidateProxy (NewProxyValidator 3) liveNet 900 p d3)))))))
   = Some (exCooling, exRecoveredStore)"
  by (simp add: ReportProxyStatus_def db_First_def exStore_def exProxy_def
      updateProxyStats_def Lock_def Unlock_def NewProxyScheduler_def UpdateProxyStatus_refused
      calculateSuccessRate_def GetSuccessRate_def calculateScore_def getInt_def exCooling_def
      ValidateProxy_def NewProxyValidator_def liveNet_def db_Save_def proxyAddr_def
      exRecoveredStore_def exRecovered_def Let_def)

text \<open>
  Claim C3. The code does not do what the claim says. The only candidate is in cooldown
  for another five minutes, and \<open>isProxyQualified\<close> rejects it; \<open>siteAdaptiveSchedule\<close>
  with a domain never asks \<open>isProxyQualified\<close> and selects it. Called as \<open>ScheduleProxy\<close>
  calls it, under the read lock, it does not return \<open>ErrNoQualifiedProxy\<close> either: having
  selected the proxy it calls \<open>updateProxyStats\<close>, which requests the write lock of the
  mutex whose read lock is held, and blocks. The failover strategy on the same candidate
  returns \<open>ErrNoQualifiedProxy\<close>. \<open>ScheduleProxy\<close> on the store that holds the candidate
  does not return \<open>ErrNoQualifiedProxy\<close>: it returns the error of the query of
  \<open>GetProxies\<close>.
\<close>

theorem siteAdaptive_selects_cooling:
  "cooldown exCooling (ID exRecovered) = Some (777 + 5 * Minute) \<and> (1000::int) < 777 + 5 * Minute
   \<and> db_First exRecoveredStore 1 = Inr exRecovered \<and> Available exRecovered
   \<and> fst (isProxyQualified 1000 exRecovered exSiteTask exCooling) = False
   \<and> map_option fst (siteAdaptiveSchedule 1000 exRng [exRecovered] exSiteTask exCooling)
       = Some (Inr exRecovered)
   \<and> RLock exCooling = Some (exCooling\<lparr>mu_readers := 1\<rparr>)
   \<and> siteAdaptiveSchedule 1000 exRng [exRecovered] exSiteTask (exCooling\<lparr>mu_readers := 1\<rparr>)
       = None
   \<and> map_option fst (failoverSchedule 1000 [exRecovered] (exSiteTask\<lparr>Strategy := StrategyFailover\<rparr>)
                        (exCooling\<lparr>mu_readers := 1\<rparr>))
       = Some (Inl ErrNoQualifiedProxy)
   \<and> map_option fst (ScheduleProxy 1000 exRng exSiteTask exRecoveredStore exCooling)
       = Some (Inl (ErrUnknownColumn ''success_rate''))
   \<and> ErrUnknownColumn ''success_rate'' \<noteq> ErrNoQualifiedProxy"
  by (simp add: exCooling_def exProxy_def exRecovered_def exSiteTask_def exRecoveredStore_def
      exRng_def NewProxyScheduler_def Minute_def Second_def GetProxies_def sortSlice_def
      isProxyQualified_def siteAdaptiveSchedule_def selectProxy_def updateProxyStats_def
      Lock_def Unlock_def RLock_def RUnlock_def ScheduleProxy_def failoverSchedule_def
      StrategySiteAdaptive_def StrategyWeighted_def StrategyRoundRobin_def
      StrategyLeastUsed_def StrategyFailover_def getInt_def getTime_def db_First_def
      checkColumns_def proxyColumns_def Let_def)

section \<open>Scheduler: feedback\<close>

lemma db_First_ID: "db_First d i = Inr p \<Longrightarrow> ID p = i"
  by (auto simp: db_First_def split: option.splits dest: find_Some_iff [THEN iffD1])

text \<open>
  The only write of \<open>ReportProxyStatus\<close> to the store is the statement of
  \<open>UpdateProxyStatus\<close>, which is refused: no report changes the store.
\<close>

lemma ReportProxyStatus_store:
  "ReportProxyStatus now i success speed d s = Some (s', d') \<Longrightarrow> d' = d"
  by (auto simp: ReportProxyStatus_def UpdateProxyStatus_refused
      split: sum.splits option.splits if_splits)

text \<open>
  Claim C6, as stated, fails in its last part: a report of a success writes nothing to the
  store. The stored row is unavailable with speed 320 ms; after the success report with
  50 ms the store is the same. And a report for a key that is not stored changes neither
  the runtime maps nor the store.
\<close>

theorem ReportProxyStatus_success_counterexample:
  "db_First exDownStore 1 = Inr exDown \<and> \<not> Available exDown \<and> Speed exDown = 320
   \<and> map_option snd (ReportProxyStatus 777 1 True 50 exDownStore NewProxyScheduler)
       = Some exDownStore
   \<and> db_First exDownStore 9 = Inl ErrRecordNotFound
   \<and> ReportProxyStatus 777 9 False 50 exDownStore NewProxyScheduler
       = Some (NewProxyScheduler, exDownStore)
   \<and> lastUsed NewProxyScheduler 9 = None \<and> useCount NewProxyScheduler 9 = None"
  by (simp add: exDownStore_def exDown_def exUsed_def exProxy_def db_First_def
      ReportProxyStatus_def updateProxyStats_def Lock_def Unlock_def NewProxyScheduler_def Let_def)

text \<open>
  Claim C6, amended. For the key of a stored proxy, and with the mutex of the scheduler
  free, \<open>ReportProxyStatus\<close> sets the runtime \<open>lastUsed\<close> to \<open>now\<close>, adds one to the
  runtime \<open>useCount\<close> and refreshes the cached weight. On a success the runtime
  \<open>failCount\<close> becomes 0, the cooldown entry is deleted, and the store is left as it is.
  On a failure the runtime \<open>failCount\<close> is incremented, and the cooldown is set to
  \<open>now\<close> plus five minutes when the count has reached 3 and is left as it is otherwise.
  For a key that is not stored, the runtime maps and the store are left as they are.
\<close>

theorem ReportProxyStatus_feedback:
  assumes "mu_readers s = 0" and "\<not> mu_writer s"
  shows "(\<forall>proxy. db_First d i = Inr proxy \<longrightarrow>
      (\<exists>s' d'. ReportProxyStatus now i success speed d s = Some (s', d') \<and>
         lastUsed s' i = Some now \<and> useCount s' i = Some (getInt (useCount s) i + 1) \<and>
         weights s' i = Some (calculateScore proxy) \<and> mu_readers s' = 0 \<and> \<not> mu_writer s' \<and>
         (success \<longrightarrow> failCount s' i = Some 0 \<and> cooldown s' i = None \<and> d' = d) \<and>
         (\<not> success \<longrightarrow>
            failCount s' i = Some (getInt (failCount s) i + 1) \<and>
            (if getInt (failCount s) i + 1 \<ge> 3 then cooldown s' i = Some (now + 5 * Minute)
             else cooldown s' i = cooldown s i))))
     \<and> ((\<exists>e. db_First d i = Inl e) \<longrightarrow>
           ReportProxyStatus now i success speed d s = Some (s, d))"
proof (intro conjI allI impI)
  fix proxy assume f: "db_First d i = Inr proxy"
  have idp: "ID proxy = i" using f by (rule db_First_ID)
  define d1 where
    "d1 = (case UpdateProxyStatus now proxy False speed d of Inl e \<Rightarrow> d | Inr d2 \<Rightarrow> d2)"
  have u: "\<And>x. (case UpdateProxyStatus now proxy False speed d of
                   Inl e \<Rightarrow> Some (x, d) | Inr d2 \<Rightarrow> Some (x, d2)) = Some (x :: ProxyScheduler, d1)"
    by (simp add: d1_def split: sum.splits)
  show "\<exists>s' d'. ReportProxyStatus now i success speed d s = Some (s', d') \<and>
         lastUsed s' i = Some now \<and> useCount s' i = Some (getInt (useCount s) i + 1) \<and>
         weights s' i = Some (calculateScore proxy) \<and> mu_readers s' = 0 \<and> \<not> mu_writer s' \<and>
         (success \<longrightarrow> failCount s' i = Some 0 \<and> cooldown s' i = None \<and> d' = d) \<and>
         (\<not> success \<longrightarrow>
            failCount s' i = Some (getInt (failCount s) i + 1) \<and>
            (if getInt (failCount s) i + 1 \<ge> 3 then cooldown s' i = Some (now + 5 * Minute)
             else cooldown s' i = cooldown s i))"
  proof (cases success)
    case True
    then show ?thesis using assms f idp
      by (simp add: ReportProxyStatus_def updateProxyStats_def Lock_def Unlock_def Let_def)
  next
    case False
    then show ?thesis using assms f idp u
      by (simp add: ReportProxyStatus_def updateProxyStats_def Lock_def Unlock_def Let_def
          getInt_def)
  qed
next
  assume "\<exists>e. db_First d i = Inl e"
  then show "ReportProxyStatus now i success speed d s = Some (s, d)"
    by (auto simp: ReportProxyStatus_def)
qed

theorem ReportProxyStatus_feedback_witness:
  "db_First exUsedStore 1 = Inr exUsed \<and> mu_readers exTwoFails = 0 \<and> \<not> mu_writer exTwoFails
   \<and> (\<exists>s' d'. ReportProxyStatus 777 1 False 50 exUsedStore exTwoFails = Some (s', d')
         \<and> lastUsed s' 1 = Some 777 \<and> useCount s' 1 = Some 3 \<and> failCount s' 1 = Some 3
         \<and> cooldown s' 1 = Some (777 + 5 * Minute))
   \<and> (\<exists>s' d'. ReportProxyStatus 888 1 True 50 exUsedStore exTwoFails = Some (s', d')
         \<and> failCount s' 1 = Some 0 \<and> cooldown s' 1 = None \<and> d' = exUsedStore)
   \<and> db_First exUsedStore 9 = Inl ErrRecordNotFound
   \<and> ReportProxyStatus 777 9 False 50 exUsedStore exTwoFails = Some (exTwoFails, exUsedStore)"
proof -
  have f: "db_First exUsedStore 1 = Inr exUsed"
    by (simp add: db_First_def exUsedStore_def exUsed_def exProxy_def)
  have n: "db_First exUsedStore 9 = Inl ErrRecordNotFound"
    by (simp add: db_First_def exUsedStore_def exUsed_def exProxy_def)
  have m: "mu_readers exTwoFails = 0" "\<not> mu_writer exTwoFails"
    by (simp_all add: exTwoFails_def NewProxyScheduler_def)
  have g: "getInt (useCount exTwoFails) 1 = 2" "getInt (failCount exTwoFails) 1 = 2"
    by (simp_all add: exTwoFails_def NewProxyScheduler_def getInt_def)
  have a: "\<exists>s' d'. ReportProxyStatus 777 1 False 50 exUsedStore exTwoFails = Some (s', d')
         \<and> lastUsed s' 1 = Some 777 \<and> useCount s' 1 = Some 3 \<and> failCount s' 1 = Some 3
         \<and> cooldown s' 1 = Some (777 + 5 * Minute)"
    using conjunct1 [OF ReportProxyStatus_feedback [OF m, of exUsedStore 1 777 False 50],
        rule_format, OF f] g
    by auto
  have b: "\<exists>s' d'. ReportProxyStatus 888 1 True 50 exUsedStore exTwoFails = Some (s', d')
         \<and> failCount s' 1 = Some 0 \<and> cooldown s' 1 = None \<and> d' = exUsedStore"
    using conjunct1 [OF ReportProxyStatus_feedback [OF m, of exUsedStore 1 888 True 50],
        rule_format, OF f]
    by auto
  have c: "ReportProxyStatus 777 9 False 50 exUsedStore exTwoFails = Some (exTwoFails, exUsedStore)"
    using conjunct2 [OF ReportProxyStatus_feedback [OF m, of exUsedStore 9 777 False 50]] n
    by blast
  show ?thesis using f m a b n c by simp
qed

section \<open>Scheduler: the weighted pick\<close>






lemma isProxyQualified_mu:
  "mu_readers (snd (isProxyQualified now p task s)) = mu_readers s \<and>
   mu_writer (snd (isProxyQualified now p task s)) = mu_writer s"
  by (simp add: isProxyQualified_def Let_def split: option.splits)

lemma weightedCandidates_mu:
  "mu_readers (snd (weightedCandidates now task ps s)) = mu_readers s \<and>
   mu_writer (snd (weightedCandidates now task ps s)) = mu_writer s"
proof (induction ps arbitrary: s)
  case Nil
  then show ?case by simp
next
  case (Cons p ps)
  obtain ok s1 where q: "isProxyQualified now p task s = (ok, s1)"
    by (cases "isProxyQualified now p task s")
  have m1: "mu_readers s1 = mu_readers s \<and> mu_writer s1 = mu_writer s"
    using isProxyQualified_mu [of now p task s] q by simp
  show ?case
    by (simp add: q m1 Cons.IH Let_def split_beta)
qed

lemma selectProxy_free:
  assumes "mu_readers s = 0" and "\<not> mu_writer s"
  shows "\<exists>s'. selectProxy now p s = Some (Inr p, s')"
  using assms by (simp add: selectProxy_def updateProxyStats_def Lock_def Let_def)





lemma take_map_snd: "take n (map snd cs) = map snd (take n cs)"
  by (simp add: take_map)

text \<open>
  The lock: \<open>updateProxyStats\<close> blocks while a read lock is held, so a strategy that has
  selected a proxy does not return under the read lock of \<open>ScheduleProxy\<close>.
\<close>

lemma selectProxy_blocks: "0 < mu_readers s \<Longrightarrow> selectProxy now p s = None"
  by (simp add: selectProxy_def updateProxyStats_def Lock_def)




end
